theory Spec2Isabelle
  imports Complex_Main "HOL-Library.AList" "HOL-Library.Product_Lexorder" "HOL-Library.List_Lexorder"
begin

unbundle bit_operations_syntax

section \<open>JavaScript values of the request\<close>

text \<open>
  \<^verbatim>\<open>server.js\<close> reads its inputs from \<^verbatim>\<open>req.body\<close>, the object that
  \<^verbatim>\<open>express.json()\<close> parses, and from \<^verbatim>\<open>req.params\<close>. A field that is missing reads
  as \<^verbatim>\<open>undefined\<close>. No handler computes with a number of the request: numbers are tested
  for truthiness, turned into text and passed on. A number is therefore carried by the text
  that \<^verbatim>\<open>Number.prototype.toString\<close> gives it (\<open>''10000''\<close>, \<open>''99.5''\<close>, \<open>''0''\<close>,
  \<open>''NaN''\<close>); this fixes the number up to the sign of zero, which nothing here observes.
  A character of a string stands for one UTF-16 code unit below 256.
\<close>

datatype jsval =
    JUndefined
  | JNull
  | JBool bool
  | JNum string
  | JStr string
  | JArr "jsval list"
  | JObj "(string \<times> jsval) list"

text \<open>The value thrown by a failing call, seen by the handlers only through \<^verbatim>\<open>error.message\<close>.\<close>

datatype exn = Thrown (message: jsval)

text \<open>\<^verbatim>\<open>!x\<close> is true exactly for the falsy values; arrays and objects are truthy even when empty.\<close>

fun truthy :: "jsval \<Rightarrow> bool" where
  "truthy JUndefined = False"
| "truthy JNull = False"
| "truthy (JBool b) = b"
| "truthy (JNum s) = (s \<noteq> ''0'' \<and> s \<noteq> ''NaN'')"
| "truthy (JStr s) = (s \<noteq> [])"
| "truthy (JArr xs) = True"
| "truthy (JObj kvs) = True"

text \<open>Reading a property of a parsed object: \<^verbatim>\<open>const { userId } = req.body\<close>.\<close>

definition get_prop :: "(string \<times> jsval) list \<Rightarrow> string \<Rightarrow> jsval" where
  "get_prop obj k = (case map_of obj k of Some v \<Rightarrow> v | None \<Rightarrow> JUndefined)"

text \<open>
  Conversion to a string, as the template literal \<^verbatim>\<open>`${userId}`\<close> and the operator \<^verbatim>\<open>+\<close>
  with a string operand perform it. \<open>None\<close> is the \<^verbatim>\<open>TypeError\<close> that JavaScript raises when
  an object cannot be converted: a parsed object that has an own property \<^verbatim>\<open>toString\<close> hides
  \<^verbatim>\<open>Object.prototype.toString\<close> behind a value that is not callable. An array joins its
  elements with commas, \<^verbatim>\<open>null\<close> and \<^verbatim>\<open>undefined\<close> elements giving the empty string.
\<close>

fun join_with :: "string \<Rightarrow> string list \<Rightarrow> string" where
  "join_with sep [] = []"
| "join_with sep [s] = s"
| "join_with sep (s # t # ss) = s @ sep @ join_with sep (t # ss)"

fun sequence :: "'a option list \<Rightarrow> 'a list option" where
  "sequence [] = Some []"
| "sequence (None # xs) = None"
| "sequence (Some x # xs) = (case sequence xs of None \<Rightarrow> None | Some ys \<Rightarrow> Some (x # ys))"

fun to_string :: "jsval \<Rightarrow> string option" where
  "to_string JUndefined = Some ''undefined''"
| "to_string JNull = Some ''null''"
| "to_string (JBool b) = Some (if b then ''true'' else ''false'')"
| "to_string (JNum s) = Some s"
| "to_string (JStr s) = Some s"
| "to_string (JArr xs) =
     map_option (join_with '','')
       (sequence (map (\<lambda>x. if x = JUndefined \<or> x = JNull then Some [] else to_string x) xs))"
| "to_string (JObj kvs) =
     (if ''toString'' \<in> fst ` set kvs then None else Some ''[object Object]'')"

definition type_error :: exn where
  "type_error = Thrown (JStr ''Cannot convert object to primitive value'')"

section \<open>HMAC-SHA256\<close>

text \<open>
  Modelled from the spec: the module \<^verbatim>\<open>crypto\<close> of the runtime is not in the repository.
  Section 4.1 of the specification gives the digest that
  \<^verbatim>\<open>crypto.createHmac('sha256', key).update(body).digest('hex')\<close> computes as
  \<open>hex(HMAC-SHA256(key, message))\<close>: the keyed hash of RFC 2104 over SHA-256
  (FIPS 180-4), printed as 64 lower-case hexadecimal digits. Words are natural numbers below
  \<open>2 ^ 32\<close> with the wrap-around written out, bytes are natural numbers below 256.
\<close>

definition add32 :: "nat \<Rightarrow> nat \<Rightarrow> nat" where
  "add32 x y = (x + y) mod 4294967296"

definition rotr :: "nat \<Rightarrow> nat \<Rightarrow> nat" where
  "rotr n x = x div 2 ^ n + (x mod 2 ^ n) * 2 ^ (32 - n)"

definition shr :: "nat \<Rightarrow> nat \<Rightarrow> nat" where
  "shr n x = x div 2 ^ n"

definition not32 :: "nat \<Rightarrow> nat" where
  "not32 x = 4294967295 - x"

definition ch :: "nat \<Rightarrow> nat \<Rightarrow> nat \<Rightarrow> nat" where
  "ch x y z = (x AND y) XOR (not32 x AND z)"

definition maj :: "nat \<Rightarrow> nat \<Rightarrow> nat \<Rightarrow> nat" where
  "maj x y z = (x AND y) XOR (x AND z) XOR (y AND z)"

definition bsig0 :: "nat \<Rightarrow> nat" where
  "bsig0 x = rotr 2 x XOR rotr 13 x XOR rotr 22 x"

definition bsig1 :: "nat \<Rightarrow> nat" where
  "bsig1 x = rotr 6 x XOR rotr 11 x XOR rotr 25 x"

definition ssig0 :: "nat \<Rightarrow> nat" where
  "ssig0 x = rotr 7 x XOR rotr 18 x XOR shr 3 x"

definition ssig1 :: "nat \<Rightarrow> nat" where
  "ssig1 x = rotr 17 x XOR rotr 19 x XOR shr 10 x"

definition K256 :: "nat list" where
  "K256 =
    [1116352408, 1899447441, 3049323471, 3921009573, 961987163, 1508970993, 2453635748, 2870763221,
     3624381080, 310598401, 607225278, 1426881987, 1925078388, 2162078206, 2614888103, 3248222580,
     3835390401, 4022224774, 264347078, 604807628, 770255983, 1249150122, 1555081692, 1996064986,
     2554220882, 2821834349, 2952996808, 3210313671, 3336571891, 3584528711, 113926993, 338241895,
     666307205, 773529912, 1294757372, 1396182291, 1695183700, 1986661051, 2177026350, 2456956037,
     2730485921, 2820302411, 3259730800, 3345764771, 3516065817, 3600352804, 4094571909, 275423344,
     430227734, 506948616, 659060556, 883997877, 958139571, 1322822218, 1537002063, 1747873779,
     1955562222, 2024104815, 2227730452, 2361852424, 2428436474, 2756734187, 3204031479, 3329325298]"

definition H256 :: "nat list" where
  "H256 =
    [1779033703, 3144134277, 1013904242, 2773480762, 1359893119, 2600822924, 528734635, 1541459225]"

text \<open>
  The message schedule is kept as a window of sixteen words: the head is the word of the
  current round, and each round appends the word sixteen places further on.
\<close>

definition next_word :: "nat list \<Rightarrow> nat" where
  "next_word win =
     add32 (add32 (ssig1 (win ! 14)) (win ! 9)) (add32 (ssig0 (win ! 1)) (win ! 0))"

definition shift_in :: "nat list \<Rightarrow> nat \<Rightarrow> nat \<Rightarrow> nat list" where
  "shift_in s t1 t2 =
     [add32 t1 t2, s ! 0, s ! 1, s ! 2, add32 (s ! 3) t1, s ! 4, s ! 5, s ! 6]"

definition round256 :: "nat list \<Rightarrow> nat \<Rightarrow> nat \<Rightarrow> nat list" where
  "round256 s k w =
     shift_in s
       (add32 (add32 (add32 (s ! 7) (bsig1 (s ! 4))) (add32 (ch (s ! 4) (s ! 5) (s ! 6)) k)) w)
       (add32 (bsig0 (s ! 0)) (maj (s ! 0) (s ! 1) (s ! 2)))"

fun rounds :: "nat list \<Rightarrow> nat list \<Rightarrow> nat list \<Rightarrow> nat list" where
  "rounds [] s win = s"
| "rounds (k # ks) s win = rounds ks (round256 s k (win ! 0)) (tl win @ [next_word win])"

definition compress :: "nat list \<Rightarrow> nat list \<Rightarrow> nat list" where
  "compress hs block = map2 add32 hs (rounds K256 hs block)"

definition be64 :: "nat \<Rightarrow> nat list" where
  "be64 n =
     [n div 72057594037927936 mod 256, n div 281474976710656 mod 256,
      n div 1099511627776 mod 256, n div 4294967296 mod 256,
      n div 16777216 mod 256, n div 65536 mod 256, n div 256 mod 256, n mod 256]"

definition pad :: "nat list \<Rightarrow> nat list" where
  "pad bs = bs @ [128] @ replicate ((119 - length bs mod 64) mod 64) 0 @ be64 (8 * length bs)"

fun words_of :: "nat list \<Rightarrow> nat list" where
  "words_of (a # b # c # d # bs) = (((a * 256 + b) * 256 + c) * 256 + d) # words_of bs"
| "words_of bs = []"

fun absorb :: "nat list \<Rightarrow> nat list \<Rightarrow> nat list" where
  "absorb hs (w0 # w1 # w2 # w3 # w4 # w5 # w6 # w7 # w8 # w9 # w10 # w11 # w12 # w13 # w14 # w15 # ws) =
     absorb (compress hs [w0, w1, w2, w3, w4, w5, w6, w7, w8, w9, w10, w11, w12, w13, w14, w15]) ws"
| "absorb hs ws = hs"

definition bytes_of :: "nat \<Rightarrow> nat list" where
  "bytes_of n = [n div 16777216, n div 65536 mod 256, n div 256 mod 256, n mod 256]"

definition sha256 :: "nat list \<Rightarrow> nat list" where
  "sha256 bs = concat (map bytes_of (absorb H256 (words_of (pad bs))))"

definition hmac_sha256 :: "nat list \<Rightarrow> nat list \<Rightarrow> nat list" where
  "hmac_sha256 key msg =
     (let k0 = (if length key > 64 then sha256 key else key);
          k = k0 @ replicate (64 - length k0) 0
      in sha256 (map (\<lambda>b. b XOR 92) k @ sha256 (map (\<lambda>b. b XOR 54) k @ msg)))"

definition hex_digit :: "nat \<Rightarrow> char" where
  "hex_digit n = ''0123456789abcdef'' ! n"

definition hex :: "nat list \<Rightarrow> string" where
  "hex bs = concat (map (\<lambda>b. [hex_digit (b div 16), hex_digit (b mod 16)]) bs)"

text \<open>
  Modelled from the spec: \<open>hex(HMAC-SHA256(key = secret, message))\<close> for a string key and a
  string message, of which the runtime hashes the UTF-8 encoding.
\<close>

definition utf8 :: "string \<Rightarrow> nat list" where
  "utf8 s = concat (map (\<lambda>c. if of_char c < (128 :: nat) then [of_char c]
                               else [192 + of_char c div 64, 128 + of_char c mod 64]) s)"

definition hmac_sha256_hex :: "string \<Rightarrow> string \<Rightarrow> string" where
  "hmac_sha256_hex key msg = hex (hmac_sha256 (utf8 key) (utf8 msg))"

section \<open>The signature check of \<^verbatim>\<open>/api/verify-payment\<close>\<close>

text \<open>
  Lines 123 to 129 of \<^verbatim>\<open>server.js\<close>.
  \<^verbatim>\<open>const body = razorpay_order_id + "|" + razorpay_payment_id\<close> converts both operands to
  strings; \<^verbatim>\<open>body.toString()\<close> then changes nothing. The key is
  \<^verbatim>\<open>process.env.RAZORPAY_KEY_SECRET || 'your_razorpay_secret_here'\<close>: an environment variable
  is a string or is unset, and the empty string is falsy.
  \<^verbatim>\<open>expectedSignature === razorpay_signature\<close> holds only for a string with the same
  characters.
\<close>

definition fallback_secret :: string where
  "fallback_secret = ''your_razorpay_secret_here''"

definition key_secret :: "string option \<Rightarrow> string" where
  "key_secret env_secret =
     (case env_secret of
        None \<Rightarrow> fallback_secret
      | Some s \<Rightarrow> if s = [] then fallback_secret else s)"

definition signing_body :: "jsval \<Rightarrow> jsval \<Rightarrow> exn + string" where
  "signing_body razorpay_order_id razorpay_payment_id =
     (case to_string razorpay_order_id of
        None \<Rightarrow> Inl type_error
      | Some a \<Rightarrow>
          (case to_string razorpay_payment_id of
             None \<Rightarrow> Inl type_error
           | Some b \<Rightarrow> Inr (a @ ''|'' @ b)))"

definition verify :: "jsval \<Rightarrow> jsval \<Rightarrow> string \<Rightarrow> jsval \<Rightarrow> exn + bool" where
  "verify razorpay_order_id razorpay_payment_id secret razorpay_signature =
     (case signing_body razorpay_order_id razorpay_payment_id of
        Inl e \<Rightarrow> Inl e
      | Inr body \<Rightarrow> Inr (JStr (hmac_sha256_hex secret body) = razorpay_signature))"

section \<open>The order store and the payment gateway\<close>

text \<open>
  The handlers talk to two services whose clients are not part of the repository: the
  Firestore collection \<^verbatim>\<open>orders\<close> and the Razorpay orders API. The answer of the
  gateway is an input of a request. The store is modelled after the Order Store Adapter of
  section 4.3 of the specification. A document is a list of named fields. A field written
  as \<^verbatim>\<open>FieldValue.serverTimestamp()\<close> is filled in by the store with the time of the
  write; following section 9 of the specification, that time is a counter which every
  accepted write advances, so that later writes carry strictly later times. A stored field
  is a value as it was written, a time that the store filled in, or a map of stored fields,
  which is what a write through a field path of several segments leaves.
\<close>

datatype write_value = Val jsval | ServerTimestamp

datatype stored = Plain jsval | Timestamp nat | Map "(string \<times> stored) list"

type_synonym write_data = "(string \<times> write_value) list"

type_synonym doc = "(string \<times> stored) list"

text \<open>The calls that leave the process and can change something outside, in the order made.\<close>

datatype effect =
    GatewayCreate jsval
  | StoreAdd write_data
  | StoreUpdate "string list" write_data

record world =
  orders :: "(string \<times> doc) list"
  clock :: nat
  remote_orders :: "(string \<times> jsval) list list"
  calls :: "effect list"

definition initial :: world where
  "initial = \<lparr>orders = [], clock = 0, remote_orders = [], calls = []\<rparr>"

text \<open>
  What the outside does during one request, which makes at most one gateway call and one
  store call: the answer of the gateway (a rejection, or the order object it resolves to),
  a failure of the store call for reasons of its own (outage, missing index, limits, a
  value that the server refuses), and
  the identifier that \<^verbatim>\<open>add()\<close> generates.
\<close>

record outside =
  gateway_answer :: "exn + (string \<times> jsval) list"
  store_fault :: "exn option"
  auto_id :: string

text \<open>The wording of the messages of the client library is not relied upon below.\<close>

definition invalid_path :: exn where
  "invalid_path = Thrown (JStr ''Value for argument documentPath is not a valid resource path'')"

definition invalid_data :: exn where
  "invalid_data = Thrown (JStr ''Value for argument data is not a valid Firestore document'')"

definition already_exists :: exn where
  "already_exists = Thrown (JStr ''6 ALREADY_EXISTS: Document already exists'')"

definition not_found :: exn where
  "not_found = Thrown (JStr ''5 NOT_FOUND: No document to update'')"

text \<open>
  \<^verbatim>\<open>String.prototype.split\<close> with a separator of one character.
\<close>

fun split_on :: "char \<Rightarrow> string \<Rightarrow> string list" where
  "split_on c [] = [[]]"
| "split_on c (x # xs) =
     (if x = c then [] # split_on c xs
      else case split_on c xs of [] \<Rightarrow> [[x]] | s # ss \<Rightarrow> (x # s) # ss)"

text \<open>
  \<^verbatim>\<open>collection('orders').doc(id)\<close> throws unless \<open>id\<close> is a non-empty string without
  \<^verbatim>\<open>//\<close>. The client then splits \<open>id\<close> at the slashes, drops the empty segments and
  appends what is left to the path of the collection; it throws unless the result names a
  document, that is, unless an odd number of segments is left. One segment names an order;
  three or more name a document of a collection below an order, which no handler ever
  writes. \<^verbatim>\<open>orderDoc.id\<close> is the last segment.
\<close>

fun has_double_slash :: "string \<Rightarrow> bool" where
  "has_double_slash (a # b # cs) = (a = CHR ''/'' \<and> b = CHR ''/'' \<or> has_double_slash (b # cs))"
| "has_double_slash cs = False"

definition doc_ref :: "jsval \<Rightarrow> exn + string list" where
  "doc_ref v =
     (case v of
        JStr s \<Rightarrow>
          if s = [] \<or> has_double_slash s then Inl invalid_path
          else if odd (length (filter (\<lambda>seg. seg \<noteq> []) (split_on CHR ''/'' s)))
          then Inr (filter (\<lambda>seg. seg \<noteq> []) (split_on CHR ''/'' s))
          else Inl invalid_path
      | _ \<Rightarrow> Inl invalid_path)"

definition find_order :: "world \<Rightarrow> string list \<Rightarrow> doc option" where
  "find_order w ref = (case ref of [oid] \<Rightarrow> map_of (orders w) oid | _ \<Rightarrow> None)"

text \<open>
  The client refuses \<^verbatim>\<open>undefined\<close> as a field value (\<^verbatim>\<open>ignoreUndefinedProperties\<close> is
  not set). A key of the data of \<^verbatim>\<open>update()\<close> is a field path: the client splits it at
  the dots, and the segments name a field inside nested maps. It refuses an update without
  fields, a key with an empty segment (the empty key, a leading or trailing dot, two dots
  in a row), a key with one of the characters \<^verbatim>\<open>* ~ / [ ]\<close>, and two keys of which one
  is a prefix path of the other.
\<close>

definition has_undefined :: "write_data \<Rightarrow> bool" where
  "has_undefined data = list_ex (\<lambda>kv. snd kv = Val JUndefined) data"

definition field_path :: "string \<Rightarrow> string list" where
  "field_path k = split_on CHR ''.'' k"

definition valid_field_path :: "string \<Rightarrow> bool" where
  "valid_field_path k =
     (list_all (\<lambda>seg. seg \<noteq> []) (field_path k) \<and> list_all (\<lambda>c. c \<notin> set ''*~/[]'') k)"

fun is_prefix_of :: "string list \<Rightarrow> string list \<Rightarrow> bool" where
  "is_prefix_of [] q = True"
| "is_prefix_of (x # p) [] = False"
| "is_prefix_of (x # p) (y # q) = (x = y \<and> is_prefix_of p q)"

fun conflicting :: "string list list \<Rightarrow> bool" where
  "conflicting [] = False"
| "conflicting (p # ps) =
     (list_ex (\<lambda>q. is_prefix_of p q \<or> is_prefix_of q p) ps \<or> conflicting ps)"

definition valid_update :: "write_data \<Rightarrow> bool" where
  "valid_update data =
     (data \<noteq> [] \<and> \<not> has_undefined data \<and> list_all (\<lambda>kv. valid_field_path (fst kv)) data
      \<and> \<not> conflicting (map (\<lambda>kv. field_path (fst kv)) data))"

text \<open>What the store keeps of the data of a write accepted at time \<open>t\<close>.\<close>

definition resolve :: "nat \<Rightarrow> write_data \<Rightarrow> doc" where
  "resolve t data =
     map (\<lambda>kv. (fst kv, case snd kv of Val x \<Rightarrow> Plain x | ServerTimestamp \<Rightarrow> Timestamp t)) data"

definition stored_value :: "nat \<Rightarrow> write_value \<Rightarrow> stored" where
  "stored_value t v = (case v of Val x \<Rightarrow> Plain x | ServerTimestamp \<Rightarrow> Timestamp t)"

text \<open>
  The fields of a map inside a record: of a map written through a field path, or of an
  object that was stored whole. Anything else has none.
\<close>

definition children :: "stored option \<Rightarrow> doc" where
  "children v =
     (case v of
        Some (Map m) \<Rightarrow> m
      | Some (Plain (JObj kvs)) \<Rightarrow> map (\<lambda>kv. (fst kv, Plain (snd kv))) kvs
      | _ \<Rightarrow> [])"

text \<open>
  Writing and reading the field at a path. A write through a path of several segments
  keeps the other fields of the maps on the way and replaces what is not a map by one.
\<close>

fun set_field :: "string list \<Rightarrow> stored \<Rightarrow> doc \<Rightarrow> doc" where
  "set_field [] v d = d"
| "set_field [k] v d = AList.update k v d"
| "set_field (k # k' # ks) v d =
     AList.update k (Map (set_field (k' # ks) v (children (map_of d k)))) d"


definition write_fields :: "nat \<Rightarrow> write_data \<Rightarrow> doc \<Rightarrow> doc" where
  "write_fields t data d =
     fold (\<lambda>kv. set_field (field_path (fst kv)) (stored_value t (snd kv))) data d"

text \<open>
  Modelled from the spec: \<^verbatim>\<open>collection('orders').add(data)\<close> of the Firestore client,
  which is not in the repository. Section 4.3, \<open>create\<close>: assigns the server timestamps and
  returns the generated identifier. An identifier already in use makes the write fail.
\<close>

definition fs_add :: "exn option \<Rightarrow> string \<Rightarrow> write_data \<Rightarrow> world \<Rightarrow> (exn + string) \<times> world" where
  "fs_add fault new_id data w =
     (let w1 = w\<lparr>calls := calls w @ [StoreAdd data]\<rparr> in
      if has_undefined data then (Inl invalid_data, w1)
      else case fault of
        Some e \<Rightarrow> (Inl e, w1)
      | None \<Rightarrow>
          (case map_of (orders w) new_id of
             Some d \<Rightarrow> (Inl already_exists, w1)
           | None \<Rightarrow>
               (Inr new_id,
                w1\<lparr>orders := orders w @ [(new_id, resolve (Suc (clock w)) data)],
                   clock := Suc (clock w)\<rparr>)))"

text \<open>
  Modelled from the spec: \<^verbatim>\<open>doc(id).update(data)\<close> of the Firestore client, which is not
  in the repository. Section 4.3, \<open>updateById\<close>: merges the given fields into the record
  and fails with \<open>NotFound\<close> if the identifier does not exist. The refresh of
  \<^verbatim>\<open>updatedAt\<close> that the specification gives to the adapter is in \<^verbatim>\<open>server.js\<close> the
  handlers' doing: they put \<^verbatim>\<open>FieldValue.serverTimestamp()\<close> under \<^verbatim>\<open>updatedAt\<close> into
  the data they pass (lines 138, 149 and 174), and the store fills in what it is given.
  The client checks the data before it sends anything.
\<close>

definition fs_update ::
  "exn option \<Rightarrow> string list \<Rightarrow> write_data \<Rightarrow> world \<Rightarrow> exn option \<times> world" where
  "fs_update fault ref data w =
     (let w1 = w\<lparr>calls := calls w @ [StoreUpdate ref data]\<rparr> in
      if \<not> valid_update data then (Some invalid_data, w1)
      else case fault of
        Some e \<Rightarrow> (Some e, w1)
      | None \<Rightarrow>
          (case find_order w ref of
             None \<Rightarrow> (Some not_found, w1)
           | Some d \<Rightarrow>
               (None,
                w1\<lparr>orders :=
                     AList.update (last ref) (write_fields (Suc (clock w)) data d) (orders w),
                   clock := Suc (clock w)\<rparr>)))"

text \<open>
  Modelled from the spec: \<^verbatim>\<open>doc(id).get()\<close> of the Firestore client, which is not in the
  repository. Section 4.3, \<open>getById\<close>: the record, or none when the identifier does not
  exist (\<^verbatim>\<open>orderDoc.exists\<close> is then false).
\<close>

definition fs_get :: "exn option \<Rightarrow> string list \<Rightarrow> world \<Rightarrow> exn + doc option" where
  "fs_get fault ref w = (case fault of Some e \<Rightarrow> Inl e | None \<Rightarrow> Inr (find_order w ref))"

text \<open>
  The number that the text of a JavaScript number denotes: \<^verbatim>\<open>NaN\<close>, an infinity, or
  digits with an optional fraction and an optional exponent, as \<^verbatim>\<open>Number.prototype.toString\<close>
  writes them. The result is a class (0 for \<^verbatim>\<open>NaN\<close>, 1 for \<^verbatim>\<open>-Infinity\<close>, 2 for a
  finite number, 3 for \<^verbatim>\<open>Infinity\<close>) and the value of a finite number.
\<close>

definition digit_of :: "char \<Rightarrow> nat option" where
  "digit_of c =
     (if 48 \<le> (of_char c :: nat) \<and> (of_char c :: nat) \<le> 57 then Some (of_char c - 48)
      else None)"

fun digits_value :: "nat \<Rightarrow> string \<Rightarrow> nat option" where
  "digits_value acc [] = Some acc"
| "digits_value acc (c # cs) =
     (case digit_of c of None \<Rightarrow> None | Some n \<Rightarrow> digits_value (10 * acc + n) cs)"

definition natural :: "string \<Rightarrow> nat option" where
  "natural s = (if s = [] then None else digits_value 0 s)"

definition exponent :: "string \<Rightarrow> int option" where
  "exponent s =
     (case s of
        [] \<Rightarrow> None
      | c # cs \<Rightarrow>
          if c = CHR ''+'' then map_option int (natural cs)
          else if c = CHR ''-'' then map_option (\<lambda>n. - int n) (natural cs)
          else map_option int (natural s))"

definition scale :: "int \<Rightarrow> int \<Rightarrow> rat" where
  "scale m e = (if 0 \<le> e then of_int (m * 10 ^ nat e) else of_int m / of_int (10 ^ nat (- e)))"

definition decimal :: "string \<Rightarrow> int \<Rightarrow> rat option" where
  "decimal s e =
     (case split_on CHR ''.'' s of
        [whole] \<Rightarrow> map_option (\<lambda>n. scale (int n) e) (natural whole)
      | [whole, fraction] \<Rightarrow>
          (case natural whole of
             None \<Rightarrow> None
           | Some a \<Rightarrow>
               (case natural fraction of
                  None \<Rightarrow> None
                | Some b \<Rightarrow>
                    Some (scale (int (a * 10 ^ length fraction + b)) (e - int (length fraction)))))
      | _ \<Rightarrow> None)"

definition unsigned :: "string \<Rightarrow> rat option" where
  "unsigned s =
     (case split_on CHR ''e'' s of
        [mantissa] \<Rightarrow> decimal mantissa 0
      | [mantissa, e] \<Rightarrow> (case exponent e of None \<Rightarrow> None | Some n \<Rightarrow> decimal mantissa n)
      | _ \<Rightarrow> None)"

definition number_value :: "string \<Rightarrow> nat \<times> rat" where
  "number_value s =
     (if s = ''-Infinity'' then (1, 0)
      else if s = ''Infinity'' then (3, 0)
      else case s of
        [] \<Rightarrow> (0, 0)
      | c # cs \<Rightarrow>
          if c = CHR ''-''
          then (case unsigned cs of None \<Rightarrow> (0, 0) | Some x \<Rightarrow> (2, - x))
          else (case unsigned s of None \<Rightarrow> (0, 0) | Some x \<Rightarrow> (2, x)))"

text \<open>
  The key by which \<^verbatim>\<open>orderBy('createdAt', 'desc')\<close> compares. Firestore orders values of
  different types by type: null, booleans, numbers, timestamps, strings, arrays, maps.
  Booleans are ordered \<^verbatim>\<open>false\<close> before \<^verbatim>\<open>true\<close>, numbers by value with \<^verbatim>\<open>NaN\<close> first,
  timestamps by time, strings by their UTF-8 bytes, arrays element by element and a proper
  prefix first, maps entry by entry in the order of their keys, the key before the value,
  and a proper prefix first. The key of a value is the sequence of its parts, each a tuple
  of a rank, the class and value of a number or a time, and the bytes of a string; an array
  and a map are closed by an end mark that is below every other part, so that the keys of
  two values compare, part by part, as Firestore compares the values. \<^verbatim>\<open>undefined\<close> is
  never stored; it is given the key of null.
\<close>

type_synonym part = "nat \<times> nat \<times> rat \<times> nat list"

definition entries_key :: "(nat list \<times> part list) list \<Rightarrow> part list" where
  "entries_key es =
     (10, 0, 0, []) # concat (map (\<lambda>e. (11, 0, 0, fst e) # snd e) (sort_key fst es))
       @ [(0, 0, 0, [])]"

fun value_key :: "jsval \<Rightarrow> part list" where
  "value_key JUndefined = [(1, 0, 0, [])]"
| "value_key JNull = [(1, 0, 0, [])]"
| "value_key (JBool b) = [(2, if b then 1 else 0, 0, [])]"
| "value_key (JNum n) = [(3, fst (number_value n), snd (number_value n), [])]"
| "value_key (JStr s) = [(5, 0, 0, utf8 s)]"
| "value_key (JArr xs) = (9, 0, 0, []) # concat (map value_key xs) @ [(0, 0, 0, [])]"
| "value_key (JObj kvs) = entries_key (map (\<lambda>(k, v). (utf8 k, value_key v)) kvs)"

fun order_key :: "stored \<Rightarrow> part list" where
  "order_key (Plain v) = value_key v"
| "order_key (Timestamp t) = [(4, 0, of_nat t, [])]"
| "order_key (Map m) = entries_key (map (\<lambda>(k, v). (utf8 k, order_key v)) m)"

definition created_key :: "doc \<Rightarrow> part list" where
  "created_key d = (case map_of d ''createdAt'' of Some v \<Rightarrow> order_key v | None \<Rightarrow> [])"

definition matches_user :: "string \<Rightarrow> doc \<Rightarrow> bool" where
  "matches_user uid d =
     (map_of d ''userId'' = Some (Plain (JStr uid)) \<and> map_of d ''createdAt'' \<noteq> None)"

text \<open>
  Modelled from the spec: the query
  \<^verbatim>\<open>where('userId', '==', userId).orderBy('createdAt', 'desc').get()\<close> of the Firestore
  client, which is not in the repository. Section 4.3, \<open>queryByUser\<close>: the records of the
  user as a sequence, descending by \<^verbatim>\<open>createdAt\<close>. The records are those whose field
  \<^verbatim>\<open>userId\<close> is the given string and that have a field \<^verbatim>\<open>createdAt\<close>. Records with
  equal \<^verbatim>\<open>createdAt\<close> come in descending order of their identifiers, which Firestore
  compares after the last field of the ordering and in its direction.
\<close>

definition fs_query :: "exn option \<Rightarrow> string \<Rightarrow> world \<Rightarrow> exn + (string \<times> doc) list" where
  "fs_query fault uid w =
     (case fault of
        Some e \<Rightarrow> Inl e
      | None \<Rightarrow>
          Inr (rev (sort_key (\<lambda>p. (created_key (snd p), utf8 (fst p)))
                 (filter (\<lambda>p. matches_user uid (snd p)) (orders w)))))"

section \<open>The handlers of \<^verbatim>\<open>server.js\<close>\<close>

text \<open>
  A handler takes the world and the parsed request and returns the response together with
  the world it leaves. Every handler body is a \<^verbatim>\<open>try\<close> block whose \<^verbatim>\<open>catch\<close> answers
  500 with \<^verbatim>\<open>error.message\<close>.
\<close>

datatype payload = J jsval | Doc doc | Docs "doc list"

record response =
  status_code :: nat
  body :: "(string \<times> payload) list"

definition error_response :: "exn \<Rightarrow> response" where
  "error_response e =
     \<lparr>status_code = 500, body = [(''success'', J (JBool False)), (''error'', J (message e))]\<rparr>"

definition missing_fields :: response where
  "missing_fields =
     \<lparr>status_code = 400,
      body = [(''success'', J (JBool False)), (''error'', J (JStr ''Missing required fields''))]\<rparr>"

text \<open>\<^verbatim>\<open>POST /api/create-order\<close>, lines 34 to 110.\<close>

definition required_fields :: "string list" where
  "required_fields =
     [''userId'', ''userEmail'', ''items'', ''totalAmount'', ''userDetails'', ''amount'']"

definition order_options :: "jsval \<Rightarrow> string \<Rightarrow> jsval \<Rightarrow> jsval \<Rightarrow> jsval" where
  "order_options amount receipt userId userEmail =
     JObj [(''amount'', amount), (''currency'', JStr ''INR''), (''receipt'', JStr receipt),
           (''notes'', JObj [(''userId'', userId), (''userEmail'', userEmail)])]"

definition order_data :: "(string \<times> jsval) list \<Rightarrow> (string \<times> jsval) list \<Rightarrow> write_data" where
  "order_data req_body razorpayOrder =
     [(''userId'', Val (get_prop req_body ''userId'')),
      (''userEmail'', Val (get_prop req_body ''userEmail'')),
      (''items'', Val (get_prop req_body ''items'')),
      (''totalAmount'', Val (get_prop req_body ''totalAmount'')),
      (''userDetails'', Val (get_prop req_body ''userDetails'')),
      (''paymentMethod'', Val (JStr ''razorpay'')),
      (''razorpayOrderId'', Val (get_prop razorpayOrder ''id'')),
      (''razorpayPaymentId'', Val JNull),
      (''razorpaySignature'', Val JNull),
      (''status'', Val (JStr ''pending'')),
      (''createdAt'', ServerTimestamp),
      (''updatedAt'', ServerTimestamp)]"

definition created_response :: "(string \<times> jsval) list \<Rightarrow> string \<Rightarrow> response" where
  "created_response razorpayOrder new_id =
     \<lparr>status_code = 200,
      body = [(''success'', J (JBool True)),
              (''razorpayOrderId'', J (get_prop razorpayOrder ''id'')),
              (''firebaseOrderId'', J (JStr new_id)),
              (''amount'', J (get_prop razorpayOrder ''amount'')),
              (''currency'', J (get_prop razorpayOrder ''currency''))]\<rparr>"

definition create_order :: "outside \<Rightarrow> world \<Rightarrow> (string \<times> jsval) list \<Rightarrow> response \<times> world" where
  "create_order io w req_body =
     (if \<not> truthy (get_prop req_body ''userId'') \<or> \<not> truthy (get_prop req_body ''userEmail'')
         \<or> \<not> truthy (get_prop req_body ''items'') \<or> \<not> truthy (get_prop req_body ''totalAmount'')
         \<or> \<not> truthy (get_prop req_body ''userDetails'') \<or> \<not> truthy (get_prop req_body ''amount'')
      then (missing_fields, w)
      else case to_string (get_prop req_body ''userId'') of
        None \<Rightarrow> (error_response type_error, w)
      | Some receipt \<Rightarrow>
          (let options = order_options (get_prop req_body ''amount'') receipt
                           (get_prop req_body ''userId'') (get_prop req_body ''userEmail'');
               w1 = w\<lparr>calls := calls w @ [GatewayCreate options]\<rparr>
           in case gateway_answer io of
                Inl e \<Rightarrow> (error_response e, w1)
              | Inr razorpayOrder \<Rightarrow>
                  (case fs_add (store_fault io) (auto_id io) (order_data req_body razorpayOrder)
                          (w1\<lparr>remote_orders := remote_orders w1 @ [razorpayOrder]\<rparr>) of
                     (Inl e, w2) \<Rightarrow> (error_response e, w2)
                   | (Inr new_id, w2) \<Rightarrow> (created_response razorpayOrder new_id, w2))))"

text \<open>\<^verbatim>\<open>POST /api/verify-payment\<close>, lines 113 to 165.\<close>

definition paid_update :: "jsval \<Rightarrow> jsval \<Rightarrow> write_data" where
  "paid_update razorpay_payment_id razorpay_signature =
     [(''razorpayPaymentId'', Val razorpay_payment_id),
      (''razorpaySignature'', Val razorpay_signature),
      (''status'', Val (JStr ''paid'')),
      (''paidAt'', ServerTimestamp),
      (''updatedAt'', ServerTimestamp)]"

definition failed_update :: write_data where
  "failed_update = [(''status'', Val (JStr ''failed'')), (''updatedAt'', ServerTimestamp)]"

definition verified_response :: response where
  "verified_response =
     \<lparr>status_code = 200,
      body = [(''success'', J (JBool True)),
              (''message'', J (JStr ''Payment verified successfully''))]\<rparr>"

definition rejected_response :: response where
  "rejected_response =
     \<lparr>status_code = 400,
      body = [(''success'', J (JBool False)),
              (''message'', J (JStr ''Payment verification failed''))]\<rparr>"

definition update_and_answer ::
  "outside \<Rightarrow> world \<Rightarrow> jsval \<Rightarrow> write_data \<Rightarrow> response \<Rightarrow> response \<times> world" where
  "update_and_answer io w firebaseOrderId data answer =
     (case doc_ref firebaseOrderId of
        Inl e \<Rightarrow> (error_response e, w)
      | Inr ref \<Rightarrow>
          (case fs_update (store_fault io) ref data w of
             (Some e, w1) \<Rightarrow> (error_response e, w1)
           | (None, w1) \<Rightarrow> (answer, w1)))"

definition verify_payment ::
  "string option \<Rightarrow> outside \<Rightarrow> world \<Rightarrow> (string \<times> jsval) list \<Rightarrow> response \<times> world" where
  "verify_payment env_secret io w req_body =
     (case verify (get_prop req_body ''razorpay_order_id'') (get_prop req_body ''razorpay_payment_id'')
             (key_secret env_secret) (get_prop req_body ''razorpay_signature'') of
        Inl e \<Rightarrow> (error_response e, w)
      | Inr isAuthentic \<Rightarrow>
          if isAuthentic
          then update_and_answer io w (get_prop req_body ''firebaseOrderId'')
                 (paid_update (get_prop req_body ''razorpay_payment_id'')
                    (get_prop req_body ''razorpay_signature''))
                 verified_response
          else update_and_answer io w (get_prop req_body ''firebaseOrderId'')
                 failed_update rejected_response)"

text \<open>
  \<^verbatim>\<open>POST /api/update-order-status\<close>, lines 168 to 196. \<^verbatim>\<open>Object.assign\<close> copies the own
  enumerable properties of its source in order, a later value replacing an earlier one: the
  properties of an object, the indexed elements of an array, the indexed characters of a
  string, nothing for a number or a boolean. Assigning to the key \<^verbatim>\<open>__proto__\<close> calls the
  prototype setter and creates no property.
\<close>

fun show_nat :: "nat \<Rightarrow> string" where
  "show_nat n =
     (if n < 10 then [char_of (48 + n)] else show_nat (n div 10) @ [char_of (48 + n mod 10)])"

declare show_nat.simps [simp del]

definition own_props :: "jsval \<Rightarrow> (string \<times> jsval) list" where
  "own_props v =
     (case v of
        JObj kvs \<Rightarrow> kvs
      | JArr xs \<Rightarrow> zip (map show_nat [0..<length xs]) xs
      | JStr s \<Rightarrow> zip (map show_nat [0..<length s]) (map (\<lambda>c. JStr [c]) s)
      | _ \<Rightarrow> [])"

definition assign :: "write_data \<Rightarrow> jsval \<Rightarrow> write_data" where
  "assign target source =
     fold (\<lambda>kv t. if fst kv = ''__proto__'' then t else AList.update (fst kv) (Val (snd kv)) t)
       (own_props source) target"

definition update_data :: "jsval \<Rightarrow> jsval \<Rightarrow> write_data" where
  "update_data status paymentDetails =
     (if truthy paymentDetails
      then assign [(''status'', Val status), (''updatedAt'', ServerTimestamp)] paymentDetails
      else [(''status'', Val status), (''updatedAt'', ServerTimestamp)])"

definition updated_response :: response where
  "updated_response =
     \<lparr>status_code = 200,
      body = [(''success'', J (JBool True)),
              (''message'', J (JStr ''Order status updated successfully''))]\<rparr>"

definition update_order_status :: "outside \<Rightarrow> world \<Rightarrow> (string \<times> jsval) list \<Rightarrow> response \<times> world" where
  "update_order_status io w req_body =
     update_and_answer io w (get_prop req_body ''firebaseOrderId'')
       (update_data (get_prop req_body ''status'') (get_prop req_body ''paymentDetails''))
       updated_response"

text \<open>
  \<^verbatim>\<open>GET /api/order/:orderId\<close>, lines 199 to 227, and \<^verbatim>\<open>GET /api/orders/:userId\<close>, lines
  230 to 260. A route parameter is a string. \<^verbatim>\<open>{ id: doc.id, ...doc.data() }\<close> writes the
  identifier first and the fields of the document over it.
\<close>

definition with_id :: "string \<Rightarrow> doc \<Rightarrow> doc" where
  "with_id oid d = AList.merge [(''id'', Plain (JStr oid))] d"

definition order_not_found :: response where
  "order_not_found =
     \<lparr>status_code = 404,
      body = [(''success'', J (JBool False)), (''error'', J (JStr ''Order not found''))]\<rparr>"

definition get_order :: "outside \<Rightarrow> world \<Rightarrow> string \<Rightarrow> response \<times> world" where
  "get_order io w orderId =
     (case doc_ref (JStr orderId) of
        Inl e \<Rightarrow> (error_response e, w)
      | Inr ref \<Rightarrow>
          (case fs_get (store_fault io) ref w of
             Inl e \<Rightarrow> (error_response e, w)
           | Inr None \<Rightarrow> (order_not_found, w)
           | Inr (Some d) \<Rightarrow>
               (\<lparr>status_code = 200,
                 body = [(''success'', J (JBool True)), (''order'', Doc (with_id (last ref) d))]\<rparr>,
                w)))"

definition list_orders_for_user :: "outside \<Rightarrow> world \<Rightarrow> string \<Rightarrow> response \<times> world" where
  "list_orders_for_user io w userId =
     (case fs_query (store_fault io) userId w of
        Inl e \<Rightarrow> (error_response e, w)
      | Inr snapshot \<Rightarrow>
          (\<lparr>status_code = 200,
            body = [(''success'', J (JBool True)),
                    (''orders'', Docs (map (\<lambda>p. with_id (fst p) (snd p)) snapshot))]\<rparr>, w))"

text \<open>The service as a whole: requests are served one after the other.\<close>

datatype request =
    CreateOrder outside "(string \<times> jsval) list"
  | VerifyPayment outside "(string \<times> jsval) list"
  | UpdateOrderStatus outside "(string \<times> jsval) list"
  | GetOrder outside string
  | ListOrdersForUser outside string

fun handle :: "string option \<Rightarrow> request \<Rightarrow> world \<Rightarrow> response \<times> world" where
  "handle env_secret (CreateOrder io req_body) w = create_order io w req_body"
| "handle env_secret (VerifyPayment io req_body) w = verify_payment env_secret io w req_body"
| "handle env_secret (UpdateOrderStatus io req_body) w = update_order_status io w req_body"
| "handle env_secret (GetOrder io orderId) w = get_order io w orderId"
| "handle env_secret (ListOrdersForUser io userId) w = list_orders_for_user io w userId"

fun run :: "string option \<Rightarrow> request list \<Rightarrow> world \<Rightarrow> world" where
  "run env_secret [] w = w"
| "run env_secret (r # rs) w = run env_secret rs (snd (handle env_secret r w))"

section \<open>Shapes of executions and sample requests\<close>


definition stored_field :: "world \<Rightarrow> string \<Rightarrow> string \<Rightarrow> stored option" where
  "stored_field w oid k = (case map_of (orders w) oid of None \<Rightarrow> None | Some d \<Rightarrow> map_of d k)"


text \<open>The example of section 8 of the specification, and requests that follow it.\<close>

definition example_gateway_order :: "(string \<times> jsval) list" where
  "example_gateway_order =
     [(''id'', JStr ''order_abc''), (''amount'', JNum ''10000''), (''currency'', JStr ''INR'')]"

definition example_io :: "string \<Rightarrow> outside" where
  "example_io new_id =
     \<lparr>gateway_answer = Inr example_gateway_order, store_fault = None, auto_id = new_id\<rparr>"

definition example_items :: jsval where
  "example_items = JArr [JObj [(''sku'', JStr ''X''), (''qty'', JNum ''1'')]]"

definition example_body :: "jsval \<Rightarrow> (string \<times> jsval) list" where
  "example_body items =
     [(''userId'', JStr ''u1''), (''userEmail'', JStr ''a@b.com''), (''items'', items),
      (''totalAmount'', JNum ''100''), (''userDetails'', JObj [(''name'', JStr ''A'')]),
      (''amount'', JNum ''10000'')]"

definition payment_body :: "jsval \<Rightarrow> (string \<times> jsval) list" where
  "payment_body signature =
     [(''razorpay_order_id'', JStr ''order_abc''), (''razorpay_payment_id'', JStr ''pay_xyz''),
      (''razorpay_signature'', signature), (''firebaseOrderId'', JStr ''doc1'')]"

definition good_signature :: "string \<Rightarrow> jsval" where
  "good_signature secret = JStr (hmac_sha256_hex secret ''order_abc|pay_xyz'')"

definition status_body :: "string \<Rightarrow> jsval \<Rightarrow> jsval \<Rightarrow> (string \<times> jsval) list" where
  "status_body oid status paymentDetails =
     [(''firebaseOrderId'', JStr oid), (''status'', status), (''paymentDetails'', paymentDetails)]"


definition example_doc :: "nat \<Rightarrow> doc" where
  "example_doc t =
     [(''userId'', Plain (JStr ''u1'')), (''userEmail'', Plain (JStr ''a@b.com'')),
      (''items'', Plain example_items), (''totalAmount'', Plain (JNum ''100'')),
      (''userDetails'', Plain (JObj [(''name'', JStr ''A'')])),
      (''paymentMethod'', Plain (JStr ''razorpay'')),
      (''razorpayOrderId'', Plain (JStr ''order_abc'')),
      (''razorpayPaymentId'', Plain JNull), (''razorpaySignature'', Plain JNull),
      (''status'', Plain (JStr ''pending'')),
      (''createdAt'', Timestamp t), (''updatedAt'', Timestamp t)]"


definition world1 :: world where
  "world1 = snd (create_order (example_io ''doc1'') initial (example_body example_items))"

section \<open>Invariants of the stored records\<close>

text \<open>
  The two invariants of section 3 of the specification, as tests on a record, and the
  weaker form of the second that the handlers do keep.
\<close>

definition created_before_updated :: "doc \<Rightarrow> bool" where
  "created_before_updated d =
     (case map_of d ''createdAt'' of
        Some (Timestamp c) \<Rightarrow>
          (case map_of d ''updatedAt'' of Some (Timestamp u) \<Rightarrow> c \<le> u | _ \<Rightarrow> False)
      | _ \<Rightarrow> False)"

definition paid_at_only_when_paid :: "doc \<Rightarrow> bool" where
  "paid_at_only_when_paid d =
     (map_of d ''paidAt'' = None \<or> map_of d ''status'' = Some (Plain (JStr ''paid'')))"

definition paid_at_only_after_verification :: "doc \<Rightarrow> bool" where
  "paid_at_only_after_verification d =
     (map_of d ''paidAt'' = None \<or> map_of d ''status'' = Some (Plain (JStr ''paid''))
      \<or> map_of d ''status'' = Some (Plain (JStr ''failed'')))"

text \<open>A record is in order at a time when, moreover, its timestamps are not in the future.\<close>

definition doc_ok :: "nat \<Rightarrow> doc \<Rightarrow> bool" where
  "doc_ok now d =
     ((case map_of d ''createdAt'' of
         Some (Timestamp c) \<Rightarrow>
           (case map_of d ''updatedAt'' of Some (Timestamp u) \<Rightarrow> c \<le> u \<and> u \<le> now | _ \<Rightarrow> False)
       | _ \<Rightarrow> False)
      \<and> paid_at_only_after_verification d)"

definition world_ok :: "world \<Rightarrow> bool" where
  "world_ok w = list_all (\<lambda>p. doc_ok (clock w) (snd p)) (orders w)"

fun is_status_update :: "request \<Rightarrow> bool" where
  "is_status_update (UpdateOrderStatus io req_body) = True"
| "is_status_update r = False"


definition forged_body :: "(string \<times> jsval) list" where
  "forged_body = payment_body (JStr ''forged'')"

definition without_payment_id :: "(string \<times> jsval) list" where
  "without_payment_id =
     [(''razorpay_order_id'', JStr ''order_abc''),
      (''razorpay_signature'', JStr (hmac_sha256_hex ''s3cret'' ''order_abc|undefined'')),
      (''firebaseOrderId'', JStr ''doc1'')]"

definition with_object_id :: "(string \<times> jsval) list" where
  "with_object_id =
     [(''razorpay_order_id'', JObj [(''toString'', JNum ''1'')]),
      (''razorpay_payment_id'', JStr ''pay_xyz''),
      (''razorpay_signature'', JStr ''forged''), (''firebaseOrderId'', JStr ''doc1'')]"

definition paid_then_refused :: "request list" where
  "paid_then_refused =
     [CreateOrder (example_io ''doc1'') (example_body example_items),
      VerifyPayment (example_io ''x'') (payment_body (good_signature ''s3cret'')),
      VerifyPayment (example_io ''x'') forged_body]"

definition created_then_overwritten :: "request list" where
  "created_then_overwritten =
     [CreateOrder (example_io ''doc1'') (example_body example_items),
      UpdateOrderStatus (example_io ''x'')
        (status_body ''doc1'' (JStr ''paid'') (JObj [(''updatedAt'', JStr ''never'')]))]"






section \<open>Properties of the signature check\<close>

lemma length_rounds: "length s = 8 \<Longrightarrow> length (rounds ks s win) = 8"
  by (induction ks arbitrary: s win) (simp_all add: round256_def shift_in_def)

lemma length_compress: "length hs = 8 \<Longrightarrow> length (compress hs block) = 8"
  by (simp add: compress_def length_rounds)

lemma length_absorb: "length hs = 8 \<Longrightarrow> length (absorb hs ws) = 8"
  by (induction hs ws rule: absorb.induct) (simp_all add: length_compress)

lemma length_concat_bytes: "length (concat (map bytes_of ws)) = 4 * length ws"
  by (induction ws) (simp_all add: bytes_of_def)

lemma length_sha256: "length (sha256 bs) = 32"
  by (simp add: sha256_def length_concat_bytes length_absorb H256_def)

lemma length_hex: "length (hex bs) = 2 * length bs"
  by (induction bs) (simp_all add: hex_def)

lemma length_hmac_sha256_hex: "length (hmac_sha256_hex key msg) = 64"
  by (simp add: hmac_sha256_hex_def hmac_sha256_def Let_def length_hex length_sha256)

lemma replicate_numeral_unfold: "replicate (numeral k) x = x # replicate (pred_numeral k) x"
  by (simp add: numeral_eq_Suc)

lemmas sha256_unfold =
  sha256_def pad_def be64_def compress_def round256_def shift_in_def bytes_of_def K256_def
  H256_def next_word_def add32_def shr_def not32_def rotr_def ch_def maj_def bsig0_def
  bsig1_def ssig0_def ssig1_def replicate_numeral_unfold

text \<open>
  Test case 2 of RFC 4231 (key \<open>Jefe\<close>), computed by rewriting: the inner hash over the key
  xored with \<open>0x36\<close> followed by the message, the outer hash over the key xored with
  \<open>0x5c\<close> followed by the inner digest, and the keyed hash as a whole.
\<close>

lemma jefe_inner_hash:
  "sha256 [
      124, 83, 80, 83, 54, 54, 54, 54, 54, 54, 54, 54, 54, 54, 54, 54, 54, 54, 54, 54, 54, 54,
      54, 54, 54, 54, 54, 54, 54, 54, 54, 54, 54, 54, 54, 54, 54, 54, 54, 54, 54, 54, 54, 54,
      54, 54, 54, 54, 54, 54, 54, 54, 54, 54, 54, 54, 54, 54, 54, 54, 54, 54, 54, 54, 119, 104,
      97, 116, 32, 100, 111, 32, 121, 97, 32, 119, 97, 110, 116, 32, 102, 111, 114, 32, 110,
      111, 116, 104, 105, 110, 103, 63] =
     [
      162, 228, 133, 134, 61, 39, 249, 216, 100, 172, 141, 128, 36, 50, 161, 237, 71, 125, 140,
      76, 111, 52, 157, 22, 212, 231, 233, 23, 198, 41, 202, 215]"
  by (simp add: sha256_unfold)

lemma jefe_outer_hash:
  "sha256 [
      22, 57, 58, 57, 92, 92, 92, 92, 92, 92, 92, 92, 92, 92, 92, 92, 92, 92, 92, 92, 92, 92,
      92, 92, 92, 92, 92, 92, 92, 92, 92, 92, 92, 92, 92, 92, 92, 92, 92, 92, 92, 92, 92, 92,
      92, 92, 92, 92, 92, 92, 92, 92, 92, 92, 92, 92, 92, 92, 92, 92, 92, 92, 92, 92, 162, 228,
      133, 134, 61, 39, 249, 216, 100, 172, 141, 128, 36, 50, 161, 237, 71, 125, 140, 76, 111,
      52, 157, 22, 212, 231, 233, 23, 198, 41, 202, 215] =
     [
      91, 220, 193, 70, 191, 96, 117, 78, 106, 4, 36, 38, 8, 149, 117, 199, 90, 0, 63, 8, 157,
      39, 57, 131, 157, 236, 88, 185, 100, 236, 56, 67]"
  by (simp add: sha256_unfold)

lemma hmac_sha256_rfc4231_case2:
  "hmac_sha256_hex ''Jefe'' ''what do ya want for nothing?''
     = ''5bdcc146bf60754e6a042426089575c75a003f089d2739839dec58b964ec3843''"
proof -
  have k: "utf8 ''Jefe'' = [74, 101, 102, 101]"
    by (simp add: utf8_def)
  have m: "utf8 ''what do ya want for nothing?'' =
     [
      119, 104, 97, 116, 32, 100, 111, 32, 121, 97, 32, 119, 97, 110, 116, 32, 102, 111, 114,
      32, 110, 111, 116, 104, 105, 110, 103, 63]"
    by (simp add: utf8_def)
  show ?thesis
    by (simp add: hmac_sha256_hex_def hmac_sha256_def k m replicate_numeral_unfold
          jefe_inner_hash jefe_outer_hash hex_def hex_digit_def)
qed


lemma hmac_sha256_hex_differs': "length s \<noteq> 64 \<Longrightarrow> s \<noteq> hmac_sha256_hex key msg"
  using length_hmac_sha256_hex [of key msg] by auto




section \<open>Facts about the store\<close>

lemma map_of_resolve:
  "map_of (resolve t data) k =
     map_option (\<lambda>v. case v of Val x \<Rightarrow> Plain x | ServerTimestamp \<Rightarrow> Timestamp t) (map_of data k)"
  by (induction data) (auto simp add: resolve_def)

lemma fs_add_cases:
  assumes "fs_add fault new_id data w = (res, w')"
  shows "calls w' = calls w @ [StoreAdd data] \<and> remote_orders w' = remote_orders w
     \<and> ((\<exists>e. res = Inl e \<and> orders w' = orders w \<and> clock w' = clock w)
        \<or> (res = Inr new_id \<and> fault = None \<and> \<not> has_undefined data
             \<and> map_of (orders w) new_id = None
             \<and> orders w' = orders w @ [(new_id, resolve (Suc (clock w)) data)]
             \<and> clock w' = Suc (clock w)))"
  using assms
  by (auto simp add: fs_add_def Let_def split: if_splits option.splits)


lemma split_on_absent: "c \<notin> set s \<Longrightarrow> split_on c s = [s]"
  by (induction s) auto


lemma field_path_plain: "CHR ''.'' \<notin> set k \<Longrightarrow> field_path k = [k]"
  by (simp add: field_path_def split_on_absent)

lemma fs_update_cases:
  assumes "fs_update fault ref data w = (res, w')"
  shows "calls w' = calls w @ [StoreUpdate ref data] \<and> remote_orders w' = remote_orders w
     \<and> ((\<exists>e. res = Some e \<and> orders w' = orders w \<and> clock w' = clock w)
        \<or> (res = None \<and> fault = None \<and> valid_update data
             \<and> (\<exists>oid d. ref = [oid] \<and> map_of (orders w) oid = Some d
                   \<and> orders w' =
                       AList.update oid (write_fields (Suc (clock w)) data d) (orders w))
             \<and> clock w' = Suc (clock w)))"
  using assms
  by (auto simp add: fs_update_def find_order_def Let_def
        split: if_splits option.splits list.splits)

lemma fs_update_accepted:
  assumes "fault = None" and "valid_update data" and "map_of (orders w) oid = Some d"
  shows "fs_update fault [oid] data w =
           (None, w\<lparr>calls := calls w @ [StoreUpdate [oid] data],
                    orders := AList.update oid (write_fields (Suc (clock w)) data d) (orders w),
                    clock := Suc (clock w)\<rparr>)"
  using assms by (simp add: fs_update_def find_order_def Let_def)

lemma fs_update_refused:
  assumes "\<not> valid_update data"
  shows "fs_update fault ref data w =
           (Some invalid_data, w\<lparr>calls := calls w @ [StoreUpdate ref data]\<rparr>)"
  using assms by (simp add: fs_update_def Let_def)

lemma update_and_answer_accepted:
  assumes "doc_ref fid = Inr [oid]" and "store_fault io = None" and "valid_update data"
    and "map_of (orders w) oid = Some d"
  shows "update_and_answer io w fid data answer =
           (answer, w\<lparr>calls := calls w @ [StoreUpdate [oid] data],
                    orders := AList.update oid (write_fields (Suc (clock w)) data d) (orders w),
                    clock := Suc (clock w)\<rparr>)"
  using assms by (simp add: update_and_answer_def fs_update_accepted)

lemma update_and_answer_refused:
  assumes "doc_ref fid = Inr ref" and "\<not> valid_update data"
  shows "update_and_answer io w fid data answer =
           (error_response invalid_data, w\<lparr>calls := calls w @ [StoreUpdate ref data]\<rparr>)"
  using assms by (simp add: update_and_answer_def fs_update_refused)

lemma map_of_updated_order:
  "map_of (AList.update oid (write_fields t data d) os) oid = Some (write_fields t data d)"
  by (simp add: update_conv')

lemma write_fields_Cons:
  "write_fields t (kv # data) d =
     write_fields t data (set_field (field_path (fst kv)) (stored_value t (snd kv)) d)"
  by (simp add: write_fields_def)

lemma write_fields_Nil: "write_fields t [] d = d"
  by (simp add: write_fields_def)

text \<open>An update whose keys are plain names replaces the fields of these names.\<close>

lemma map_of_merged:
  assumes "list_all (\<lambda>kv. CHR ''.'' \<notin> set (fst kv)) data" and "distinct (map fst data)"
  shows "map_of (write_fields t data d) k =
     (case map_of data k of
        None \<Rightarrow> map_of d k
      | Some (Val x) \<Rightarrow> Some (Plain x)
      | Some ServerTimestamp \<Rightarrow> Some (Timestamp t))"
  using assms
proof (induction data arbitrary: d)
  case Nil
  show ?case by (simp add: write_fields_Nil)
next
  case (Cons kv data)
  have plain: "field_path (fst kv) = [fst kv]"
    using Cons.prems(1) by (simp add: field_path_plain)
  have absent: "map_of data (fst kv) = None"
    using Cons.prems(2) by (simp add: map_of_eq_None_iff)
  have "map_of (write_fields t (kv # data) d) k =
          (case map_of data k of
             None \<Rightarrow> map_of (AList.update (fst kv) (stored_value t (snd kv)) d) k
           | Some (Val x) \<Rightarrow> Some (Plain x)
           | Some ServerTimestamp \<Rightarrow> Some (Timestamp t))"
    using Cons.IH [of "AList.update (fst kv) (stored_value t (snd kv)) d"] Cons.prems
    by (simp add: write_fields_Cons plain)
  then show ?case
    using absent
    by (cases kv)
      (auto simp add: update_conv' stored_value_def split: option.splits write_value.splits)
qed







lemma is_prefix_of_refl: "is_prefix_of p p"
  by (induction p) simp_all


lemma plain_paid_update: "list_all (\<lambda>kv. CHR ''.'' \<notin> set (fst kv)) (paid_update p s)"
  by (simp add: paid_update_def)

lemma distinct_paid_update: "distinct (map fst (paid_update p s))"
  by (simp add: paid_update_def)

lemma valid_paid_update:
  "valid_update (paid_update p s) = (p \<noteq> JUndefined \<and> s \<noteq> JUndefined)"
  by (simp add: valid_update_def paid_update_def has_undefined_def valid_field_path_def
        field_path_def)

lemma plain_failed_update: "list_all (\<lambda>kv. CHR ''.'' \<notin> set (fst kv)) failed_update"
  by (simp add: failed_update_def)

lemma distinct_failed_update: "distinct (map fst failed_update)"
  by (simp add: failed_update_def)

lemma valid_failed_update: "valid_update failed_update"
  by (simp add: valid_update_def failed_update_def has_undefined_def valid_field_path_def
        field_path_def)

lemma doc_ref_plain: "s \<noteq> [] \<Longrightarrow> CHR ''/'' \<notin> set s \<Longrightarrow> doc_ref (JStr s) = Inr [s]"
proof -
  assume s: "s \<noteq> []" and slash: "CHR ''/'' \<notin> set s"
  have "\<not> has_double_slash s"
    using slash by (induction s rule: has_double_slash.induct) auto
  then show ?thesis
    using s slash by (simp add: doc_ref_def split_on_absent)
qed

lemma world1_value:
  "create_order (example_io ''doc1'') initial (example_body example_items) =
     (created_response example_gateway_order ''doc1'',
      \<lparr>orders = [(''doc1'', example_doc 1)], clock = 1,
       remote_orders = [example_gateway_order],
       calls = [GatewayCreate (order_options (JNum ''10000'') ''u1'' (JStr ''u1'') (JStr ''a@b.com'')),
                StoreAdd (order_data (example_body example_items) example_gateway_order)]\<rparr>)"
  by (simp add: create_order_def example_io_def example_body_def example_items_def get_prop_def
        initial_def fs_add_def has_undefined_def order_data_def resolve_def example_doc_def
        example_gateway_order_def)

lemma world1_eq:
  "world1 =
     \<lparr>orders = [(''doc1'', example_doc 1)], clock = 1,
      remote_orders = [example_gateway_order],
      calls = [GatewayCreate (order_options (JNum ''10000'') ''u1'' (JStr ''u1'') (JStr ''a@b.com'')),
               StoreAdd (order_data (example_body example_items) example_gateway_order)]\<rparr>"
  by (simp add: world1_def world1_value)

section \<open>Creating an order\<close>

lemma required_cases:
  "f \<in> set required_fields \<Longrightarrow>
     f = ''userId'' \<or> f = ''userEmail'' \<or> f = ''items'' \<or> f = ''totalAmount''
     \<or> f = ''userDetails'' \<or> f = ''amount''"
  by (simp add: required_fields_def)

text \<open>
  C3, as the code has it. When one of the six required inputs is falsy (absent, \<^verbatim>\<open>null\<close>,
  \<^verbatim>\<open>false\<close>, zero, \<^verbatim>\<open>NaN\<close> or the empty string) the request is answered 400 with
  \<open>Missing required fields\<close> and the world is left as it was: no gateway call, no store
  write. Empty arrays and empty objects are truthy and are not covered.
\<close>

theorem create_order_rejects_falsy_field:
  assumes "f \<in> set required_fields" and "\<not> truthy (get_prop req_body f)"
  shows "create_order io w req_body =
           (\<lparr>status_code = 400,
             body = [(''success'', J (JBool False)),
                     (''error'', J (JStr ''Missing required fields''))]\<rparr>, w)"
  using required_cases [OF assms(1)] assms(2)
  by (auto simp add: create_order_def missing_fields_def)

theorem create_order_rejects_falsy_field_witness:
  "create_order (example_io ''doc1'') initial (example_body (JStr [])) =
     (\<lparr>status_code = 400,
       body = [(''success'', J (JBool False)),
               (''error'', J (JStr ''Missing required fields''))]\<rparr>, initial)"
  using create_order_rejects_falsy_field
    [of "''items''" "example_body (JStr [])" "example_io ''doc1''" initial]
  by (simp add: required_fields_def example_body_def get_prop_def)

text \<open>
  C3 as stated fails: with \<^verbatim>\<open>items: []\<close>, an empty sequence, \<^verbatim>\<open>!items\<close> is false; the
  request passes validation, the gateway is called, the order is stored and the answer is
  the success response.
\<close>

theorem empty_items_are_accepted:
  "get_prop (example_body (JArr [])) ''items'' = JArr []
   \<and> fst (create_order (example_io ''doc1'') initial (example_body (JArr [])))
       = created_response example_gateway_order ''doc1''
   \<and> length (calls (snd (create_order (example_io ''doc1'') initial (example_body (JArr []))))) = 2
   \<and> length (orders (snd (create_order (example_io ''doc1'') initial (example_body (JArr []))))) = 1"
  by (simp add: create_order_def example_body_def example_io_def get_prop_def initial_def
        fs_add_def has_undefined_def order_data_def Let_def example_gateway_order_def)

text \<open>
  C4. When \<^verbatim>\<open>create-order\<close> answers 200, the gateway resolved to an order object; the
  response carries that object's \<^verbatim>\<open>id\<close>, \<^verbatim>\<open>amount\<close> and \<^verbatim>\<open>currency\<close> and the identifier
  generated by the store; and the record stored under that identifier has status
  \<open>pending\<close>, the gateway's order id, and \<^verbatim>\<open>null\<close> for payment id and signature.
\<close>

theorem create_order_success:
  assumes "create_order io w req_body = (r, w')" and "status_code r = 200"
  shows "\<exists>razorpayOrder d.
           gateway_answer io = Inr razorpayOrder
         \<and> r = \<lparr>status_code = 200,
                 body = [(''success'', J (JBool True)),
                         (''razorpayOrderId'', J (get_prop razorpayOrder ''id'')),
                         (''firebaseOrderId'', J (JStr (auto_id io))),
                         (''amount'', J (get_prop razorpayOrder ''amount'')),
                         (''currency'', J (get_prop razorpayOrder ''currency''))]\<rparr>
         \<and> map_of (orders w') (auto_id io) = Some d
         \<and> map_of d ''status'' = Some (Plain (JStr ''pending''))
         \<and> map_of d ''razorpayOrderId'' = Some (Plain (get_prop razorpayOrder ''id''))
         \<and> map_of d ''razorpayPaymentId'' = Some (Plain JNull)
         \<and> map_of d ''razorpaySignature'' = Some (Plain JNull)"
proof -
  from assms obtain receipt razorpayOrder res where
    g: "gateway_answer io = Inr razorpayOrder" and
    a: "fs_add (store_fault io) (auto_id io) (order_data req_body razorpayOrder)
          (w\<lparr>calls := calls w @ [GatewayCreate (order_options (get_prop req_body ''amount'') receipt
                           (get_prop req_body ''userId'') (get_prop req_body ''userEmail''))],
             remote_orders := remote_orders w @ [razorpayOrder]\<rparr>) = (res, w')" and
    r: "r = (case res of Inl e \<Rightarrow> error_response e
             | Inr new_id \<Rightarrow> created_response razorpayOrder new_id)"
    by (auto simp add: create_order_def Let_def missing_fields_def error_response_def
          split: if_splits option.splits sum.splits prod.splits)
  from fs_add_cases [OF a] r assms(2)
  have res: "res = Inr (auto_id io)"
    and fresh: "map_of (orders w) (auto_id io) = None"
    and o: "orders w' =
              orders w @ [(auto_id io, resolve (Suc (clock w)) (order_data req_body razorpayOrder))]"
    by (auto simp add: error_response_def)
  let ?d = "resolve (Suc (clock w)) (order_data req_body razorpayOrder)"
  have "map_of (orders w') (auto_id io) = Some ?d"
    using fresh o by (simp add: map_add_def)
  moreover have "map_of ?d ''status'' = Some (Plain (JStr ''pending''))"
    "map_of ?d ''razorpayOrderId'' = Some (Plain (get_prop razorpayOrder ''id''))"
    "map_of ?d ''razorpayPaymentId'' = Some (Plain JNull)"
    "map_of ?d ''razorpaySignature'' = Some (Plain JNull)"
    by (simp_all add: map_of_resolve order_data_def)
  ultimately show ?thesis using g r res by (auto simp add: created_response_def)
qed

theorem create_order_success_witness:
  "\<exists>razorpayOrder d.
     gateway_answer (example_io ''doc1'') = Inr razorpayOrder
   \<and> created_response example_gateway_order ''doc1'' =
       \<lparr>status_code = 200,
        body = [(''success'', J (JBool True)),
                (''razorpayOrderId'', J (get_prop razorpayOrder ''id'')),
                (''firebaseOrderId'', J (JStr ''doc1'')),
                (''amount'', J (get_prop razorpayOrder ''amount'')),
                (''currency'', J (get_prop razorpayOrder ''currency''))]\<rparr>
   \<and> map_of (orders world1) ''doc1'' = Some d
   \<and> map_of d ''status'' = Some (Plain (JStr ''pending''))
   \<and> map_of d ''razorpayOrderId'' = Some (Plain (get_prop razorpayOrder ''id''))
   \<and> map_of d ''razorpayPaymentId'' = Some (Plain JNull)
   \<and> map_of d ''razorpaySignature'' = Some (Plain JNull)"
proof -
  have run: "create_order (example_io ''doc1'') initial (example_body example_items)
               = (created_response example_gateway_order ''doc1'', world1)"
    by (simp add: world1_value world1_eq)
  have ok: "status_code (created_response example_gateway_order ''doc1'') = 200"
    by (simp add: created_response_def)
  from create_order_success [OF run ok] show ?thesis
    by (simp add: example_io_def)
qed



section \<open>Verifying a payment\<close>

lemma payment_body_fields:
  "get_prop (payment_body s) ''razorpay_order_id'' = JStr ''order_abc''"
  "get_prop (payment_body s) ''razorpay_payment_id'' = JStr ''pay_xyz''"
  "get_prop (payment_body s) ''razorpay_signature'' = s"
  "get_prop (payment_body s) ''firebaseOrderId'' = JStr ''doc1''"
  by (simp_all add: payment_body_def get_prop_def)

lemma doc_ref_doc1: "doc_ref (JStr ''doc1'') = Inr [''doc1'']"
  by (simp add: doc_ref_def)

lemma world1_doc1: "map_of (orders world1) ''doc1'' = Some (example_doc 1)"
  by (simp add: world1_eq)

lemma verify_payment_accepts:
  assumes "to_string (get_prop req_body ''razorpay_order_id'') = Some a"
    and "to_string (get_prop req_body ''razorpay_payment_id'') = Some b"
    and "get_prop req_body ''razorpay_signature''
           = JStr (hmac_sha256_hex (key_secret env_secret) (a @ ''|'' @ b))"
    and "get_prop req_body ''razorpay_payment_id'' \<noteq> JUndefined"
    and "doc_ref (get_prop req_body ''firebaseOrderId'') = Inr [oid]"
    and "map_of (orders w) oid = Some d"
    and "store_fault io = None"
  shows "verify_payment env_secret io w req_body =
           (verified_response,
            w\<lparr>calls := calls w @ [StoreUpdate [oid]
                       (paid_update (get_prop req_body ''razorpay_payment_id'')
                          (get_prop req_body ''razorpay_signature''))],
              orders := AList.update oid
                          (write_fields (Suc (clock w))
                             (paid_update (get_prop req_body ''razorpay_payment_id'')
                                (get_prop req_body ''razorpay_signature'')) d)
                          (orders w),
              clock := Suc (clock w)\<rparr>)"
proof -
  have "valid_update (paid_update (get_prop req_body ''razorpay_payment_id'')
          (get_prop req_body ''razorpay_signature''))"
    using assms(3,4) by (simp add: valid_paid_update)
  from update_and_answer_accepted [OF assms(5) assms(7) this assms(6)] assms(1,2,3)
  show ?thesis
    by (simp add: verify_payment_def verify_def signing_body_def)
qed

lemma verify_payment_without_payment_id:
  assumes "to_string (get_prop req_body ''razorpay_order_id'') = Some a"
    and "to_string (get_prop req_body ''razorpay_payment_id'') = Some b"
    and "get_prop req_body ''razorpay_signature''
           = JStr (hmac_sha256_hex (key_secret env_secret) (a @ ''|'' @ b))"
    and "get_prop req_body ''razorpay_payment_id'' = JUndefined"
    and "doc_ref (get_prop req_body ''firebaseOrderId'') = Inr ref"
  shows "verify_payment env_secret io w req_body =
           (error_response invalid_data,
            w\<lparr>calls := calls w @ [StoreUpdate ref
                       (paid_update (get_prop req_body ''razorpay_payment_id'')
                          (get_prop req_body ''razorpay_signature''))]\<rparr>)"
proof -
  have "\<not> valid_update (paid_update (get_prop req_body ''razorpay_payment_id'')
          (get_prop req_body ''razorpay_signature''))"
    using assms(4) by (simp add: valid_paid_update)
  from update_and_answer_refused [OF assms(5) this] assms(1,2,3)
  show ?thesis
    by (simp add: verify_payment_def verify_def signing_body_def)
qed

lemma verify_payment_rejects:
  assumes "to_string (get_prop req_body ''razorpay_order_id'') = Some a"
    and "to_string (get_prop req_body ''razorpay_payment_id'') = Some b"
    and "get_prop req_body ''razorpay_signature''
           \<noteq> JStr (hmac_sha256_hex (key_secret env_secret) (a @ ''|'' @ b))"
    and "doc_ref (get_prop req_body ''firebaseOrderId'') = Inr [oid]"
    and "map_of (orders w) oid = Some d"
    and "store_fault io = None"
  shows "verify_payment env_secret io w req_body =
           (rejected_response,
            w\<lparr>calls := calls w @ [StoreUpdate [oid] failed_update],
              orders := AList.update oid
                          (write_fields (Suc (clock w)) failed_update d) (orders w),
              clock := Suc (clock w)\<rparr>)"
proof -
  from update_and_answer_accepted [OF assms(4) assms(6) valid_failed_update assms(5)]
    assms(1,2,3)
  show ?thesis
    by (auto simp add: verify_payment_def verify_def signing_body_def)
qed

lemma verify_payment_throws:
  assumes "to_string (get_prop req_body ''razorpay_order_id'') = None
           \<or> to_string (get_prop req_body ''razorpay_payment_id'') = None"
  shows "verify_payment env_secret io w req_body = (error_response type_error, w)"
  using assms
  by (auto simp add: verify_payment_def verify_def signing_body_def split: option.splits)

lemma map_of_paid:
  "map_of (write_fields t (paid_update p s) d) k =
     (if k = ''razorpayPaymentId'' then Some (Plain p)
      else if k = ''razorpaySignature'' then Some (Plain s)
      else if k = ''status'' then Some (Plain (JStr ''paid''))
      else if k = ''paidAt'' \<or> k = ''updatedAt'' then Some (Timestamp t)
      else map_of d k)"
  by (simp add: map_of_merged [OF plain_paid_update distinct_paid_update])
    (simp add: paid_update_def)

lemma map_of_failed:
  "map_of (write_fields t failed_update d) k =
     (if k = ''status'' then Some (Plain (JStr ''failed''))
      else if k = ''updatedAt'' then Some (Timestamp t)
      else map_of d k)"
  by (simp add: map_of_merged [OF plain_failed_update distinct_failed_update])
    (simp add: failed_update_def)

text \<open>
  C2, as the code has it. Take a \<^verbatim>\<open>verify-payment\<close> request whose two gateway
  identifiers can be converted to the strings \<open>a\<close> and \<open>b\<close> and whose
  \<^verbatim>\<open>firebaseOrderId\<close> names an existing order, and let the store answer. If the
  candidate signature is the expected digest of \<open>a + "|" + b\<close> and the payment id is
  present, the answer is 200 with \<open>Payment verified successfully\<close> and the order has
  status \<open>paid\<close>, the supplied payment id and signature, and \<^verbatim>\<open>paidAt\<close> and
  \<^verbatim>\<open>updatedAt\<close> set to the time of the write. If the signature is the expected digest
  and the payment id is absent, the answer is 500 and the order is not touched. If the
  signature is not the expected digest, the answer is 400 with a \<^verbatim>\<open>message\<close> field and no
  \<^verbatim>\<open>error\<close> field, the status is \<open>failed\<close>, \<^verbatim>\<open>updatedAt\<close> is the time of the write, and
  payment id, signature and \<^verbatim>\<open>paidAt\<close> are what they were before: unset on an order that
  was never paid, still set on an order that was.
\<close>

theorem verify_payment_paid_or_failed:
  assumes "to_string (get_prop req_body ''razorpay_order_id'') = Some a"
    and "to_string (get_prop req_body ''razorpay_payment_id'') = Some b"
    and "doc_ref (get_prop req_body ''firebaseOrderId'') = Inr [oid]"
    and "map_of (orders w) oid = Some d"
    and "store_fault io = None"
    and "verify_payment env_secret io w req_body = (r, w')"
  shows "if get_prop req_body ''razorpay_signature''
              = JStr (hmac_sha256_hex (key_secret env_secret) (a @ ''|'' @ b))
         then if get_prop req_body ''razorpay_payment_id'' = JUndefined
              then status_code r = 500 \<and> orders w' = orders w \<and> clock w' = clock w
              else \<exists>d'. map_of (orders w') oid = Some d'
                  \<and> clock w' = Suc (clock w)
                  \<and> r = \<lparr>status_code = 200,
                          body = [(''success'', J (JBool True)),
                                  (''message'', J (JStr ''Payment verified successfully''))]\<rparr>
                  \<and> map_of d' ''status'' = Some (Plain (JStr ''paid''))
                  \<and> map_of d' ''razorpayPaymentId''
                       = Some (Plain (get_prop req_body ''razorpay_payment_id''))
                  \<and> map_of d' ''razorpaySignature''
                       = Some (Plain (get_prop req_body ''razorpay_signature''))
                  \<and> map_of d' ''paidAt'' = Some (Timestamp (Suc (clock w)))
                  \<and> map_of d' ''updatedAt'' = Some (Timestamp (Suc (clock w)))
         else \<exists>d'. map_of (orders w') oid = Some d'
                  \<and> clock w' = Suc (clock w)
                  \<and> status_code r = 400
                  \<and> map_of (body r) ''success'' = Some (J (JBool False))
                  \<and> map_of (body r) ''message'' = Some (J (JStr ''Payment verification failed''))
                  \<and> map_of (body r) ''error'' = None
                  \<and> map_of d' ''status'' = Some (Plain (JStr ''failed''))
                  \<and> map_of d' ''updatedAt'' = Some (Timestamp (Suc (clock w)))
                  \<and> map_of d' ''razorpayPaymentId'' = map_of d ''razorpayPaymentId''
                  \<and> map_of d' ''razorpaySignature'' = map_of d ''razorpaySignature''
                  \<and> map_of d' ''paidAt'' = map_of d ''paidAt''"
proof (cases "get_prop req_body ''razorpay_signature''
                = JStr (hmac_sha256_hex (key_secret env_secret) (a @ ''|'' @ b))")
  case True
  show ?thesis
  proof (cases "get_prop req_body ''razorpay_payment_id'' = JUndefined")
    case absent: True
    from verify_payment_without_payment_id [OF assms(1,2) True absent assms(3)] assms(6)
    show ?thesis
      using True absent by (auto simp add: error_response_def)
  next
    case present: False
    from verify_payment_accepts [OF assms(1,2) True present assms(3,4,5)] assms(6)
    show ?thesis
      using True present
      by (auto simp add: map_of_updated_order map_of_paid verified_response_def)
  qed
next
  case False
  from verify_payment_rejects [OF assms(1,2) False assms(3,4,5)] assms(6)
  show ?thesis
    using False
    by (auto simp add: map_of_updated_order map_of_failed rejected_response_def)
qed

theorem verify_payment_paid_or_failed_witness:
  "stored_field (snd (verify_payment (Some ''s3cret'') (example_io ''x'') world1
                        (payment_body (good_signature ''s3cret'')))) ''doc1'' ''status''
     = Some (Plain (JStr ''paid''))
   \<and> stored_field (snd (verify_payment (Some ''s3cret'') (example_io ''x'') world1
                        (payment_body (good_signature ''s3cret'')))) ''doc1'' ''paidAt''
     = Some (Timestamp 2)
   \<and> stored_field (snd (verify_payment (Some ''s3cret'') (example_io ''x'') world1
                        (payment_body (JStr ''forged'')))) ''doc1'' ''status''
     = Some (Plain (JStr ''failed''))
   \<and> stored_field (snd (verify_payment (Some ''s3cret'') (example_io ''x'') world1
                        (payment_body (JStr ''forged'')))) ''doc1'' ''paidAt''
     = None
   \<and> status_code (fst (verify_payment (Some ''s3cret'') (example_io ''x'') world1
                        (payment_body (JStr ''forged'')))) = 400"
proof -
  have io: "store_fault (example_io ''x'') = None"
    by (simp add: example_io_def)
  have ref: "doc_ref (get_prop (payment_body s) ''firebaseOrderId'') = Inr [''doc1'']" for s
    by (simp add: payment_body_fields doc_ref_doc1)
  have key: "key_secret (Some ''s3cret'') = ''s3cret''"
    by (simp add: key_secret_def)
  have a: "to_string (get_prop (payment_body s) ''razorpay_order_id'') = Some ''order_abc''" for s
    by (simp add: payment_body_fields)
  have b: "to_string (get_prop (payment_body s) ''razorpay_payment_id'') = Some ''pay_xyz''" for s
    by (simp add: payment_body_fields)
  note paid = verify_payment_paid_or_failed
    [where req_body = "payment_body (good_signature ''s3cret'')" and env_secret = "Some ''s3cret''",
      OF a b ref world1_doc1 io surjective_pairing]
  note failed = verify_payment_paid_or_failed
    [where req_body = "payment_body (JStr ''forged'')" and env_secret = "Some ''s3cret''",
      OF a b ref world1_doc1 io surjective_pairing]
  from paid failed show ?thesis
    by (auto simp add: stored_field_def payment_body_fields key good_signature_def
          hmac_sha256_hex_differs' world1_eq example_doc_def)
qed

lemma paid_then_refused_record:
  "\<exists>d. map_of (orders (run (Some ''s3cret'') paid_then_refused initial)) ''doc1'' = Some d
      \<and> map_of d ''status'' = Some (Plain (JStr ''failed''))
      \<and> map_of d ''paidAt'' = Some (Timestamp 2)
      \<and> map_of d ''razorpayPaymentId'' = Some (Plain (JStr ''pay_xyz''))
      \<and> map_of d ''razorpaySignature'' = Some (Plain (good_signature ''s3cret''))"
proof -
  let ?io = "example_io ''x''"
  let ?good = "payment_body (good_signature ''s3cret'')"
  define w2 where "w2 = snd (verify_payment (Some ''s3cret'') ?io world1 ?good)"
  define w3 where "w3 = snd (verify_payment (Some ''s3cret'') ?io w2 forged_body)"
  have run3: "run (Some ''s3cret'') paid_then_refused initial = w3"
    by (simp only: paid_then_refused_def run.simps handle.simps world1_def w2_def w3_def)
  have io: "store_fault ?io = None"
    by (simp add: example_io_def)
  have ref: "doc_ref (get_prop (payment_body s) ''firebaseOrderId'') = Inr [''doc1'']" for s
    by (simp add: payment_body_fields doc_ref_doc1)
  have key: "key_secret (Some ''s3cret'') = ''s3cret''"
    by (simp add: key_secret_def)
  have a: "to_string (get_prop (payment_body s) ''razorpay_order_id'') = Some ''order_abc''" for s
    by (simp add: payment_body_fields)
  have b: "to_string (get_prop (payment_body s) ''razorpay_payment_id'') = Some ''pay_xyz''" for s
    by (simp add: payment_body_fields)
  have now: "Suc (clock world1) = 2"
    by (simp add: world1_eq)
  have good: "get_prop ?good ''razorpay_signature''
      = JStr (hmac_sha256_hex (key_secret (Some ''s3cret'')) (''order_abc'' @ ''|'' @ ''pay_xyz''))"
    by (simp add: payment_body_fields good_signature_def key)
  have present: "get_prop ?good ''razorpay_payment_id'' \<noteq> JUndefined"
    by (simp add: payment_body_fields)
  have bad: "get_prop (payment_body (JStr ''forged'')) ''razorpay_signature''
      \<noteq> JStr (hmac_sha256_hex (key_secret (Some ''s3cret'')) (''order_abc'' @ ''|'' @ ''pay_xyz''))"
    by (simp add: payment_body_fields hmac_sha256_hex_differs')
  let ?paid = "paid_update (get_prop ?good ''razorpay_payment_id'')
                 (get_prop ?good ''razorpay_signature'')"
  let ?d2 = "write_fields (Suc (clock world1)) ?paid (example_doc 1)"
  from verify_payment_accepts [OF a b good present ref world1_doc1 io]
  have o2: "orders w2 = AList.update ''doc1'' ?d2 (orders world1)"
    by (simp add: w2_def)
  then have d2: "map_of (orders w2) ''doc1'' = Some ?d2"
    by (simp add: map_of_updated_order)
  let ?d3 = "write_fields (Suc (clock w2)) failed_update ?d2"
  from verify_payment_rejects [OF a b bad ref d2 io]
  have "orders w3 = AList.update ''doc1'' ?d3 (orders w2)"
    by (simp add: w3_def forged_body_def)
  then have d3: "map_of (orders w3) ''doc1'' = Some ?d3"
    by (simp add: map_of_updated_order)
  have "map_of ?d3 ''status'' = Some (Plain (JStr ''failed''))"
    by (simp add: map_of_failed)
  moreover have "map_of ?d3 ''paidAt'' = Some (Timestamp 2)"
    by (simp add: map_of_failed map_of_paid now)
  moreover have "map_of ?d3 ''razorpayPaymentId'' = Some (Plain (JStr ''pay_xyz''))"
    by (simp add: map_of_failed map_of_paid payment_body_fields)
  moreover have "map_of ?d3 ''razorpaySignature'' = Some (Plain (good_signature ''s3cret''))"
    by (simp add: map_of_failed map_of_paid payment_body_fields)
  ultimately show ?thesis
    using d3 run3 by simp
qed

text \<open>
  C2 as stated fails in three ways. A request whose signature is the
  digest of \<open>order_abc|undefined\<close> and that carries no payment id passes the check, but the
  store refuses the undefined payment id: the answer is 500 and the order stays
  \<open>pending\<close>. A request whose order id is an object with an own \<^verbatim>\<open>toString\<close> property
  makes line 123 throw: the answer is 500 and the order is not marked \<open>failed\<close>. And a
  refused verification on an order that was paid before leaves payment id, signature and
  \<^verbatim>\<open>paidAt\<close> set, not unset.
\<close>

theorem verification_neither_paid_nor_failed:
  "verify (get_prop without_payment_id ''razorpay_order_id'')
      (get_prop without_payment_id ''razorpay_payment_id'') ''s3cret''
      (get_prop without_payment_id ''razorpay_signature'') = Inr True
   \<and> status_code (fst (verify_payment (Some ''s3cret'') (example_io ''x'') world1
                         without_payment_id)) = 500
   \<and> stored_field (snd (verify_payment (Some ''s3cret'') (example_io ''x'') world1
                         without_payment_id)) ''doc1'' ''status''
       = Some (Plain (JStr ''pending''))
   \<and> status_code (fst (verify_payment (Some ''s3cret'') (example_io ''x'') world1
                         with_object_id)) = 500
   \<and> stored_field (snd (verify_payment (Some ''s3cret'') (example_io ''x'') world1
                         with_object_id)) ''doc1'' ''status''
       = Some (Plain (JStr ''pending''))
   \<and> stored_field (run (Some ''s3cret'') paid_then_refused initial) ''doc1'' ''status''
       = Some (Plain (JStr ''failed''))
   \<and> stored_field (run (Some ''s3cret'') paid_then_refused initial) ''doc1'' ''paidAt''
       = Some (Timestamp 2)
   \<and> stored_field (run (Some ''s3cret'') paid_then_refused initial) ''doc1'' ''razorpayPaymentId''
       = Some (Plain (JStr ''pay_xyz''))
   \<and> stored_field (run (Some ''s3cret'') paid_then_refused initial) ''doc1'' ''razorpaySignature''
       = Some (Plain (good_signature ''s3cret''))"
proof -
  let ?io = "example_io ''x''"
  have fields:
    "get_prop without_payment_id ''razorpay_order_id'' = JStr ''order_abc''"
    "get_prop without_payment_id ''razorpay_payment_id'' = JUndefined"
    "get_prop without_payment_id ''razorpay_signature''
       = JStr (hmac_sha256_hex ''s3cret'' ''order_abc|undefined'')"
    "get_prop without_payment_id ''firebaseOrderId'' = JStr ''doc1''"
    by (simp_all add: without_payment_id_def get_prop_def)
  have key: "key_secret (Some ''s3cret'') = ''s3cret''"
    by (simp add: key_secret_def)
  have a: "to_string (get_prop without_payment_id ''razorpay_order_id'') = Some ''order_abc''"
    by (simp add: fields)
  have b: "to_string (get_prop without_payment_id ''razorpay_payment_id'') = Some ''undefined''"
    by (simp add: fields)
  have sig: "get_prop without_payment_id ''razorpay_signature''
      = JStr (hmac_sha256_hex (key_secret (Some ''s3cret'')) (''order_abc'' @ ''|'' @ ''undefined''))"
    by (simp add: fields key)
  have ref: "doc_ref (get_prop without_payment_id ''firebaseOrderId'') = Inr [''doc1'']"
    by (simp add: fields doc_ref_doc1)
  have authentic: "verify (get_prop without_payment_id ''razorpay_order_id'')
      (get_prop without_payment_id ''razorpay_payment_id'') ''s3cret''
      (get_prop without_payment_id ''razorpay_signature'') = Inr True"
    by (simp add: fields verify_def signing_body_def)
  have refused: "status_code (fst (verify_payment (Some ''s3cret'') ?io world1 without_payment_id)) = 500
    \<and> stored_field (snd (verify_payment (Some ''s3cret'') ?io world1 without_payment_id))
          ''doc1'' ''status'' = Some (Plain (JStr ''pending''))"
    unfolding verify_payment_without_payment_id [OF a b sig fields(2) ref]
    by (simp add: error_response_def stored_field_def world1_eq example_doc_def)
  have "to_string (get_prop with_object_id ''razorpay_order_id'') = None"
    by (simp add: with_object_id_def get_prop_def)
  then have thrown: "verify_payment (Some ''s3cret'') ?io world1 with_object_id
      = (error_response type_error, world1)"
    by (simp add: verify_payment_throws)
  have throws: "status_code (fst (verify_payment (Some ''s3cret'') ?io world1 with_object_id)) = 500
    \<and> stored_field (snd (verify_payment (Some ''s3cret'') ?io world1 with_object_id))
          ''doc1'' ''status'' = Some (Plain (JStr ''pending''))"
    unfolding thrown
    by (simp add: error_response_def stored_field_def world1_eq example_doc_def)
  from paid_then_refused_record authentic refused throws show ?thesis
    by (auto simp add: stored_field_def)
qed



section \<open>Updating the status of an order\<close>



lemma distinct_assign:
  "distinct (map fst target) \<Longrightarrow> distinct (map fst (assign target source))"
proof -
  have "distinct (map fst target) \<Longrightarrow>
        distinct (map fst (fold (\<lambda>kv t. if fst kv = ''__proto__'' then t
                                       else AList.update (fst kv) (Val (snd kv)) t) props target))"
    for props
    by (induction props arbitrary: target) (simp_all add: distinct_update)
  then show "distinct (map fst target) \<Longrightarrow> distinct (map fst (assign target source))"
    by (simp add: assign_def)
qed

lemma distinct_update_data: "distinct (map fst (update_data status paymentDetails))"
  by (simp add: update_data_def distinct_assign)





section \<open>Reading an order\<close>

lemma map_of_with_id:
  "map_of (with_id oid d) k =
     (if k = ''id'' \<and> map_of d ''id'' = None then Some (Plain (JStr oid)) else map_of d k)"
  by (auto simp add: with_id_def merge_conv' map_add_def split: option.splits)

lemma get_order_reads_only: "snd (get_order io w orderId) = w"
  by (simp add: get_order_def split: sum.splits option.splits)

text \<open>
  C9, as the code has it. \<^verbatim>\<open>GET /api/order/:orderId\<close> always answers 200, 404 or 500 and
  changes nothing. For an identifier of one path segment and a store that answers: an
  identifier that is not in the store gives 404 with \<open>Order not found\<close>; one that is gives
  200 with the fields of the stored record, and the document identifier under \<^verbatim>\<open>id\<close>
  unless the record has a field \<^verbatim>\<open>id\<close> of its own, which then stands in its place.
\<close>

theorem get_order_answers:
  "status_code (fst (get_order io w orderId)) \<in> {200, 404, 500}
   \<and> snd (get_order io w orderId) = w
   \<and> (orderId \<noteq> [] \<and> CHR ''/'' \<notin> set orderId \<and> store_fault io = None \<longrightarrow>
        get_order io w orderId =
          (case map_of (orders w) orderId of
             None \<Rightarrow>
               (\<lparr>status_code = 404,
                 body = [(''success'', J (JBool False)), (''error'', J (JStr ''Order not found''))]\<rparr>,
                w)
           | Some d \<Rightarrow>
               (\<lparr>status_code = 200,
                 body = [(''success'', J (JBool True)), (''order'', Doc (with_id orderId d))]\<rparr>,
                w)))
   \<and> (\<forall>d k. map_of (with_id orderId d) k =
          (if k = ''id'' \<and> map_of d ''id'' = None then Some (Plain (JStr orderId))
           else map_of d k))"
proof -
  have "status_code (fst (get_order io w orderId)) \<in> {200, 404, 500}"
    by (auto simp add: get_order_def error_response_def order_not_found_def
          split: option.splits sum.splits)
  moreover have "get_order io w orderId =
          (case map_of (orders w) orderId of
             None \<Rightarrow>
               (\<lparr>status_code = 404,
                 body = [(''success'', J (JBool False)), (''error'', J (JStr ''Order not found''))]\<rparr>,
                w)
           | Some d \<Rightarrow>
               (\<lparr>status_code = 200,
                 body = [(''success'', J (JBool True)), (''order'', Doc (with_id orderId d))]\<rparr>,
                w))"
    if "orderId \<noteq> []" and "CHR ''/'' \<notin> set orderId" and "store_fault io = None"
    using that
    by (simp add: get_order_def doc_ref_plain fs_get_def find_order_def order_not_found_def
          split: option.splits)
  ultimately show ?thesis
    by (simp add: get_order_reads_only map_of_with_id)
qed

theorem get_order_answers_witness:
  "get_order (example_io ''x'') world1 ''nope'' =
     (\<lparr>status_code = 404,
       body = [(''success'', J (JBool False)), (''error'', J (JStr ''Order not found''))]\<rparr>, world1)
   \<and> get_order (example_io ''x'') world1 ''doc1'' =
     (\<lparr>status_code = 200,
       body = [(''success'', J (JBool True)), (''order'', Doc (with_id ''doc1'' (example_doc 1)))]\<rparr>,
      world1)
   \<and> map_of (with_id ''doc1'' (example_doc 1)) ''id'' = Some (Plain (JStr ''doc1''))"
  using get_order_answers [of "example_io ''x''" world1 "''nope''"]
    get_order_answers [of "example_io ''x''" world1 "''doc1''"]
  by (simp add: example_io_def world1_eq example_doc_def)

text \<open>
  C9 as stated fails for a record that has a field \<^verbatim>\<open>id\<close>, which
  \<^verbatim>\<open>update-order-status\<close> can write: the spread \<^verbatim>\<open>...orderDoc.data()\<close> comes after
  \<^verbatim>\<open>id: orderDoc.id\<close> and replaces it, so the answer no longer shows the identifier of the
  order.
\<close>

theorem record_field_hides_order_id:
  "\<exists>d. fst (get_order (example_io ''x'')
              (snd (update_order_status (example_io ''x'') world1
                      (status_body ''doc1'' (JStr ''paid'') (JObj [(''id'', JStr ''zzz'')]))))
              ''doc1'')
        = \<lparr>status_code = 200, body = [(''success'', J (JBool True)), (''order'', Doc d)]\<rparr>
     \<and> map_of d ''id'' = Some (Plain (JStr ''zzz''))"
proof -
  let ?io = "example_io ''x''"
  let ?data = "[(''status'', Val (JStr ''paid'')), (''updatedAt'', ServerTimestamp),
                (''id'', Val (JStr ''zzz''))]"
  have data: "update_data (JStr ''paid'') (JObj [(''id'', JStr ''zzz'')]) = ?data"
    by (simp add: update_data_def assign_def own_props_def)
  have valid: "valid_update ?data"
    by (simp add: valid_update_def has_undefined_def valid_field_path_def field_path_def)
  have io: "store_fault ?io = None"
    by (simp add: example_io_def)
  have "update_order_status ?io world1
          (status_body ''doc1'' (JStr ''paid'') (JObj [(''id'', JStr ''zzz'')])) =
        update_and_answer ?io world1 (JStr ''doc1'') ?data updated_response"
    by (simp add: update_order_status_def status_body_def get_prop_def data)
  then have after: "snd (update_order_status ?io world1
          (status_body ''doc1'' (JStr ''paid'') (JObj [(''id'', JStr ''zzz'')]))) =
        world1\<lparr>calls := calls world1 @ [StoreUpdate [''doc1''] ?data],
               orders := AList.update ''doc1''
                           (write_fields (Suc (clock world1)) ?data (example_doc 1))
                           (orders world1),
               clock := Suc (clock world1)\<rparr>"
    by (simp add: update_and_answer_accepted [OF doc_ref_doc1 io valid world1_doc1])
  have "map_of (write_fields (Suc (clock world1)) ?data (example_doc 1)) ''id''
          = Some (Plain (JStr ''zzz''))"
    by (simp add: map_of_merged)
  then show ?thesis
    unfolding after
    by (simp add: get_order_def doc_ref_doc1 fs_get_def find_order_def io update_conv'
          map_of_with_id)
qed

section \<open>What the handlers keep invariant\<close>

lemma set_alist_update:
  "p \<in> set (AList.update k v al) \<Longrightarrow> p = (k, v) \<or> p \<in> set al"
  by (induction al) (auto split: if_splits)

lemma create_order_world:
  assumes "create_order io w req_body = (r, w')"
  shows "(orders w' = orders w \<and> clock w' = clock w)
       \<or> (\<exists>razorpayOrder.
             orders w' = orders w @ [(auto_id io, resolve (Suc (clock w)) (order_data req_body razorpayOrder))]
           \<and> clock w' = Suc (clock w))"
proof -
  have "fs_add fault new_id data v = (res, w') \<Longrightarrow>
          (orders w' = orders v \<and> clock w' = clock v)
        \<or> (orders w' = orders v @ [(new_id, resolve (Suc (clock v)) data)] \<and> clock w' = Suc (clock v))"
    for fault new_id data v res
    using fs_add_cases [of fault new_id data v res w'] by auto
  with assms show ?thesis
    by (fastforce simp add: create_order_def Let_def
          split: if_splits option.splits sum.splits prod.splits)
qed

lemma update_and_answer_world:
  assumes "update_and_answer io w fid data answer = (r, w')"
  shows "(orders w' = orders w \<and> clock w' = clock w)
       \<or> (\<exists>oid d. map_of (orders w) oid = Some d
             \<and> orders w' = AList.update oid (write_fields (Suc (clock w)) data d) (orders w)
             \<and> clock w' = Suc (clock w))"
proof (cases "doc_ref fid")
  case (Inl e)
  with assms show ?thesis
    by (simp add: update_and_answer_def)
next
  case (Inr ref)
  obtain res v where u: "fs_update (store_fault io) ref data w = (res, v)"
    by (cases "fs_update (store_fault io) ref data w") blast
  with assms Inr have "v = w'"
    by (simp add: update_and_answer_def split: option.splits)
  with fs_update_cases [OF u] show ?thesis
    by blast
qed

lemma doc_ok_iff:
  "doc_ok now d \<longleftrightarrow>
     (\<exists>c u. map_of d ''createdAt'' = Some (Timestamp c)
          \<and> map_of d ''updatedAt'' = Some (Timestamp u) \<and> c \<le> u \<and> u \<le> now)
     \<and> paid_at_only_after_verification d"
proof (cases "map_of d ''createdAt''")
  case None
  then show ?thesis by (simp add: doc_ok_def)
next
  case c: (Some x)
  show ?thesis
  proof (cases "map_of d ''updatedAt''")
    case None
    with c show ?thesis by (cases x) (simp_all add: doc_ok_def)
  next
    case (Some y)
    with c show ?thesis by (cases x; cases y) (simp_all add: doc_ok_def)
  qed
qed

lemma doc_ok_later: "doc_ok now d \<Longrightarrow> now \<le> later \<Longrightarrow> doc_ok later d"
  by (auto simp add: doc_ok_iff)

lemma doc_ok_new: "doc_ok t (resolve t (order_data req_body razorpayOrder))"
  by (simp add: doc_ok_iff paid_at_only_after_verification_def map_of_resolve order_data_def)

lemma doc_ok_paid:
  "doc_ok now d \<Longrightarrow> doc_ok (Suc now) (write_fields (Suc now) (paid_update p s) d)"
  by (auto simp add: doc_ok_iff paid_at_only_after_verification_def map_of_paid)

lemma doc_ok_failed:
  "doc_ok now d \<Longrightarrow> doc_ok (Suc now) (write_fields (Suc now) failed_update d)"
  by (auto simp add: doc_ok_iff paid_at_only_after_verification_def map_of_failed)

lemma world_ok_update:
  assumes "world_ok w" and "update_and_answer io w fid data answer = (r, w')"
    and "\<And>d. doc_ok (clock w) d \<Longrightarrow> doc_ok (Suc (clock w)) (write_fields (Suc (clock w)) data d)"
  shows "world_ok w'"
proof -
  from update_and_answer_world [OF assms(2)] show ?thesis
  proof
    assume "orders w' = orders w \<and> clock w' = clock w"
    with assms(1) show ?thesis by (simp add: world_ok_def)
  next
    assume "\<exists>oid d. map_of (orders w) oid = Some d
             \<and> orders w' = AList.update oid (write_fields (Suc (clock w)) data d) (orders w)
             \<and> clock w' = Suc (clock w)"
    then obtain oid d where d: "map_of (orders w) oid = Some d"
      and o: "orders w' = AList.update oid (write_fields (Suc (clock w)) data d) (orders w)"
      and c: "clock w' = Suc (clock w)" by blast
    from d have "(oid, d) \<in> set (orders w)" by (rule map_of_SomeD)
    with assms(1) have "doc_ok (clock w) d" by (auto simp add: world_ok_def list_all_iff)
    then have new: "doc_ok (Suc (clock w)) (write_fields (Suc (clock w)) data d)"
      by (rule assms(3))
    have "doc_ok (Suc (clock w)) (snd p)" if "p \<in> set (orders w')" for p
    proof -
      from that o have "p = (oid, write_fields (Suc (clock w)) data d) \<or> p \<in> set (orders w)"
        by (auto dest: set_alist_update)
      with new assms(1) show ?thesis
        by (auto simp add: world_ok_def list_all_iff intro: doc_ok_later)
    qed
    with c show ?thesis by (simp add: world_ok_def list_all_iff)
  qed
qed

lemma world_ok_handle:
  assumes "world_ok w" and "\<not> is_status_update req"
  shows "world_ok (snd (handle env_secret req w))"
proof (cases req)
  case (CreateOrder io req_body)
  obtain r w' where run: "create_order io w req_body = (r, w')"
    by (cases "create_order io w req_body") blast
  have "doc_ok (clock w') (snd p)" if "p \<in> set (orders w')" for p
  proof -
    from assms(1) have old: "q \<in> set (orders w) \<Longrightarrow> doc_ok (clock w) (snd q)" for q
      by (simp add: world_ok_def list_all_iff)
    from create_order_world [OF run] show ?thesis
    proof
      assume "orders w' = orders w \<and> clock w' = clock w"
      with that old [of p] show ?thesis by simp
    next
      assume "\<exists>razorpayOrder.
                orders w' = orders w @ [(auto_id io, resolve (Suc (clock w)) (order_data req_body razorpayOrder))]
              \<and> clock w' = Suc (clock w)"
      then obtain razorpayOrder where
        o: "orders w' = orders w @ [(auto_id io, resolve (Suc (clock w)) (order_data req_body razorpayOrder))]"
        and c: "clock w' = Suc (clock w)" by blast
      from that o have "p \<in> set (orders w)
          \<or> snd p = resolve (Suc (clock w)) (order_data req_body razorpayOrder)" by auto
      then show ?thesis
      proof
        assume "p \<in> set (orders w)"
        then have "doc_ok (clock w) (snd p)" by (rule old)
        then show ?thesis unfolding c by (rule doc_ok_later) simp
      next
        assume "snd p = resolve (Suc (clock w)) (order_data req_body razorpayOrder)"
        then show ?thesis unfolding c by (simp add: doc_ok_new)
      qed
    qed
  qed
  then have "world_ok w'" by (simp add: world_ok_def list_all_iff)
  with CreateOrder run show ?thesis by simp
next
  case (VerifyPayment io req_body)
  obtain r w' where run: "verify_payment env_secret io w req_body = (r, w')"
    by (cases "verify_payment env_secret io w req_body") blast
  then have "world_ok w'"
    using assms(1)
    by (auto simp add: verify_payment_def split: sum.splits if_splits
          intro: world_ok_update doc_ok_paid doc_ok_failed)
  with VerifyPayment run show ?thesis by simp
next
  case (UpdateOrderStatus io req_body)
  with assms(2) show ?thesis by simp
next
  case (GetOrder io orderId)
  with assms(1) show ?thesis by (simp add: get_order_reads_only)
next
  case (ListOrdersForUser io userId)
  with assms(1) show ?thesis
    by (simp add: list_orders_for_user_def split: sum.splits)
qed

lemma world_ok_run:
  "world_ok w \<Longrightarrow> \<not> list_ex is_status_update reqs \<Longrightarrow> world_ok (run env_secret reqs w)"
  by (induction reqs arbitrary: w) (simp_all add: world_ok_handle)

text \<open>
  C5, as the code has it. In every state reached from the empty store by requests other
  than \<^verbatim>\<open>update-order-status\<close>, every record has timestamps \<^verbatim>\<open>createdAt\<close> and
  \<^verbatim>\<open>updatedAt\<close> with \<^verbatim>\<open>createdAt\<close> not after \<^verbatim>\<open>updatedAt\<close>, and has a \<^verbatim>\<open>paidAt\<close> only
  when its status is \<open>paid\<close> or \<open>failed\<close>.
\<close>

theorem records_stay_in_order:
  assumes "\<not> list_ex is_status_update reqs"
    and "(oid, d) \<in> set (orders (run env_secret reqs initial))"
  shows "created_before_updated d \<and> paid_at_only_after_verification d"
proof -
  have "world_ok initial" by (simp add: world_ok_def initial_def)
  from world_ok_run [OF this assms(1), of env_secret]
  have "\<forall>p \<in> set (orders (run env_secret reqs initial)).
          doc_ok (clock (run env_secret reqs initial)) (snd p)"
    by (simp add: world_ok_def list_all_iff)
  with assms(2) have "doc_ok (clock (run env_secret reqs initial)) (snd (oid, d))"
    by blast
  then have "doc_ok (clock (run env_secret reqs initial)) d"
    by simp
  then show ?thesis
    by (auto simp add: doc_ok_iff created_before_updated_def)
qed

theorem records_stay_in_order_witness:
  "created_before_updated (example_doc 1) \<and> paid_at_only_after_verification (example_doc 1)"
proof -
  have "(''doc1'', example_doc 1)
          \<in> set (orders (run None [CreateOrder (example_io ''doc1'') (example_body example_items)] initial))"
    by (simp add: world1_value)
  with records_stay_in_order
    [of "[CreateOrder (example_io ''doc1'') (example_body example_items)]" "''doc1''" "example_doc 1" None]
  show ?thesis by simp
qed

text \<open>
  C5 as stated fails. A verification with a wrong signature on an order that is already
  paid sets the status to \<open>failed\<close> and leaves \<^verbatim>\<open>paidAt\<close> in place; and
  \<^verbatim>\<open>update-order-status\<close> stores a caller's \<^verbatim>\<open>updatedAt\<close>, after which
  \<^verbatim>\<open>createdAt\<close> and \<^verbatim>\<open>updatedAt\<close> no longer compare as timestamps.
\<close>

theorem invariants_can_be_broken:
  "(\<exists>d. map_of (orders (run (Some ''s3cret'') paid_then_refused initial)) ''doc1'' = Some d
        \<and> map_of d ''status'' = Some (Plain (JStr ''failed''))
        \<and> map_of d ''paidAt'' = Some (Timestamp 2)
        \<and> \<not> paid_at_only_when_paid d)
   \<and> (\<exists>d. map_of (orders (run (Some ''s3cret'') created_then_overwritten initial)) ''doc1'' = Some d
        \<and> map_of d ''updatedAt'' = Some (Plain (JStr ''never''))
        \<and> \<not> created_before_updated d)"
proof -
  let ?io = "example_io ''x''"
  let ?admin = "status_body ''doc1'' (JStr ''paid'') (JObj [(''updatedAt'', JStr ''never'')])"
  define v2 where "v2 = snd (update_order_status ?io world1 ?admin)"
  have run2: "run (Some ''s3cret'') created_then_overwritten initial = v2"
    by (simp only: created_then_overwritten_def run.simps handle.simps world1_def v2_def)
  have io: "store_fault ?io = None"
    by (simp add: example_io_def)
  from paid_then_refused_record have first:
    "\<exists>d. map_of (orders (run (Some ''s3cret'') paid_then_refused initial)) ''doc1'' = Some d
        \<and> map_of d ''status'' = Some (Plain (JStr ''failed''))
        \<and> map_of d ''paidAt'' = Some (Timestamp 2)
        \<and> \<not> paid_at_only_when_paid d"
    by (auto simp add: paid_at_only_when_paid_def)
  let ?upd = "[(''status'', Val (JStr ''paid'')), (''updatedAt'', Val (JStr ''never''))]"
  have data: "update_data (JStr ''paid'') (JObj [(''updatedAt'', JStr ''never'')]) = ?upd"
    by (simp add: update_data_def assign_def own_props_def)
  let ?e2 = "write_fields (Suc (clock world1)) ?upd (example_doc 1)"
  have valid: "valid_update ?upd"
    by (simp add: valid_update_def has_undefined_def valid_field_path_def field_path_def)
  from update_and_answer_accepted [OF doc_ref_doc1 io valid world1_doc1]
  have "orders v2 = AList.update ''doc1'' ?e2 (orders world1)"
    by (simp add: v2_def update_order_status_def status_body_def get_prop_def data)
  then have e2: "map_of (orders v2) ''doc1'' = Some ?e2"
    by (simp add: map_of_updated_order)
  have "map_of ?e2 ''updatedAt'' = Some (Plain (JStr ''never''))"
    and "map_of ?e2 ''createdAt'' = Some (Timestamp 1)"
    by (simp_all add: map_of_merged example_doc_def)
  with e2 have second:
    "\<exists>d. map_of (orders v2) ''doc1'' = Some d
        \<and> map_of d ''updatedAt'' = Some (Plain (JStr ''never''))
        \<and> \<not> created_before_updated d"
    by (simp add: created_before_updated_def)
  from first second show ?thesis
    unfolding run2 by blast
qed

section \<open>Listing the orders of a user\<close>





















end
